theory Spec2Isabelle
  imports Main "HOL-Library.Sublist"
begin

section \<open>The process, its file system and its collaborators\<close>

text \<open>
  \<^verbatim>\<open>install.py\<close> is a sequential script whose every step acts on the file system, on the
  process (working directory, exit status) or on an external collaborator (the network, the
  \<^verbatim>\<open>minisign\<close>, \<^verbatim>\<open>zig\<close> and \<^verbatim>\<open>podman\<close> executables, the archive decoder, the temporary-name
  generator). Each function of the script becomes a state transformer over a \<open>world\<close>; what
  the collaborators answer is read from an \<open>env\<close>, over which every theorem is quantified.

  A path is the list of its components below the root; a file-system node is a regular
  file with its contents or a directory. The map from paths to nodes is an idealised file
  system: there are no permissions and no symbolic links, and the map does not require the
  parent of an entry to be a directory. An operation of the standard library fails exactly
  where the kind of node it finds makes the real call fail.
\<close>

type_synonym path = "string list"

datatype node = File string | Dir

text \<open>A raised exception: the name of its class and its message (\<^verbatim>\<open>str(e)\<close>).\<close>

datatype exn = Exn (cls: string) (msg: string)

text \<open>
  How a call ends: it returns a value, an exception leaves it, or \<^verbatim>\<open>sys.exit(n)\<close> was
  called. \<^verbatim>\<open>SystemExit\<close> is not an \<^verbatim>\<open>Exception\<close>, so \<^verbatim>\<open>except Exception\<close> lets it pass, while a
  \<^verbatim>\<open>finally\<close> block runs on all three.
\<close>

datatype 'a outcome = Return 'a | Raise exn | Exit nat

datatype level = Info | Success | Warning | Error

text \<open>
  What the process does that can be observed from outside: a log line, a network
  transfer, a child process (with the working directory it was started in), the unpacking
  of an archive, the removal of a tree or of a file, the creation of a temporary
  directory, a bare \<^verbatim>\<open>print\<close>.
\<close>

datatype event =
    Log level string
  | Urlretrieve string path
  | Run "string list" path
  | Extractall path path
  | Rmtree path
  | Unlink path
  | Mkdtemp path
  | Print string

record world =
  files :: "path \<Rightarrow> node option"
  cwd :: path
  trace :: "event list"

text \<open>The answer of \<^verbatim>\<open>urllib.request.urlretrieve\<close>: the bytes, or an exception, possibly
  after a truncated file was left behind.\<close>

datatype fetch_result = Fetched string | Fetch_failed exn "string option"

text \<open>The answer of \<^verbatim>\<open>subprocess.run\<close>: a completed process with its return code, standard
  output and standard error, or an exception (the executable is missing, the output does
  not decode, the process cannot be started).\<close>

datatype proc_result = Completed int string string | Run_raised exn

record env =
  home :: path
  fetch :: "string \<Rightarrow> fetch_result"
  run :: "string list \<Rightarrow> proc_result"
  run_writes :: "string list \<Rightarrow> (path \<times> node) list"
  tar_open :: "string \<Rightarrow> string \<Rightarrow> (path \<times> node) list \<times> exn option"
  named_temporary_file :: "exn + path"
  key_write :: "exn option"
  mkdtemp :: "exn + path"
  random_choices :: string

type_synonym 'a prog = "world \<Rightarrow> 'a outcome \<times> world"

definition ret :: "'a \<Rightarrow> 'a prog" where
  "ret x w = (Return x, w)"

definition raise_exn :: "exn \<Rightarrow> 'a prog" where
  "raise_exn e w = (Raise e, w)"

definition sys_exit :: "nat \<Rightarrow> 'a prog" where
  "sys_exit n w = (Exit n, w)"

definition pbind :: "'a prog \<Rightarrow> ('a \<Rightarrow> 'b prog) \<Rightarrow> 'b prog" where
  "pbind m f w =
     (case m w of
        (Return x, w1) \<Rightarrow> f x w1
      | (Raise e, w1) \<Rightarrow> (Raise e, w1)
      | (Exit n, w1) \<Rightarrow> (Exit n, w1))"

definition pseq :: "'a prog \<Rightarrow> 'b prog \<Rightarrow> 'b prog" where
  "pseq m k = pbind m (\<lambda>_. k)"

text \<open>\<^verbatim>\<open>try: m except Exception as e: h e\<close>\<close>

definition try_except :: "'a prog \<Rightarrow> (exn \<Rightarrow> 'a prog) \<Rightarrow> 'a prog" where
  "try_except m h w =
     (case m w of
        (Raise e, w1) \<Rightarrow> h e w1
      | (Return x, w1) \<Rightarrow> (Return x, w1)
      | (Exit n, w1) \<Rightarrow> (Exit n, w1))"

text \<open>\<^verbatim>\<open>try: m except (C1, C2): h\<close>: only exceptions of the named classes are caught.\<close>

definition try_except_only :: "string list \<Rightarrow> 'a prog \<Rightarrow> 'a prog \<Rightarrow> 'a prog" where
  "try_except_only classes m h w =
     (case m w of
        (Raise e, w1) \<Rightarrow> (if cls e \<in> set classes then h w1 else (Raise e, w1))
      | (Return x, w1) \<Rightarrow> (Return x, w1)
      | (Exit n, w1) \<Rightarrow> (Exit n, w1))"

text \<open>\<^verbatim>\<open>try: m finally: fin\<close>: \<open>fin\<close> runs however \<open>m\<close> ended; the way \<open>m\<close> ended stands
  unless \<open>fin\<close> itself raises or exits.\<close>

definition try_finally :: "'a prog \<Rightarrow> unit prog \<Rightarrow> 'a prog" where
  "try_finally m fin w =
     (case m w of
        (r, w1) \<Rightarrow>
          (case fin w1 of
             (Return _, w2) \<Rightarrow> (r, w2)
           | (Raise e, w2) \<Rightarrow> (Raise e, w2)
           | (Exit n, w2) \<Rightarrow> (Exit n, w2)))"

definition emit :: "event \<Rightarrow> world \<Rightarrow> world" where
  "emit e w = w\<lparr>trace := trace w @ [e]\<rparr>"

text \<open>The events a run added to the trace.\<close>

definition new_events :: "world \<Rightarrow> world \<Rightarrow> event list" where
  "new_events w w' = drop (length (trace w)) (trace w')"

subsection \<open>Paths and strings\<close>

definition str_path :: "path \<Rightarrow> string" where
  "str_path p = (if p = [] then ''/'' else concat (map (\<lambda>c. CHR ''/'' # c) p))"

definition name_of :: "path \<Rightarrow> string" where
  "name_of p = (if p = [] then [] else last p)"

definition digit :: "nat \<Rightarrow> char" where
  "digit d = char_of (48 + d)"

function str_nat :: "nat \<Rightarrow> string" where
  "str_nat n = (if n < 10 then [digit n] else str_nat (n div 10) @ [digit (n mod 10)])"
  by pat_completeness auto
termination
  by (relation "measure id") auto

declare str_nat.simps [simp del]

subsection \<open>Logging\<close>

definition log_info :: "string \<Rightarrow> unit prog" where
  "log_info message w = (Return (), emit (Log Info message) w)"

definition log_success :: "string \<Rightarrow> unit prog" where
  "log_success message w = (Return (), emit (Log Success message) w)"

definition log_warning :: "string \<Rightarrow> unit prog" where
  "log_warning message w = (Return (), emit (Log Warning message) w)"

definition log_error :: "string \<Rightarrow> unit prog" where
  "log_error message w = (Return (), emit (Log Error message) w)"

subsection \<open>The standard library on the file system\<close>

definition path_exists :: "path \<Rightarrow> bool prog" where
  "path_exists p w = (Return (files w p \<noteq> None), w)"

text \<open>\<^verbatim>\<open>os.getcwd\<close> and \<^verbatim>\<open>Path.cwd\<close> fail when the working directory is gone.\<close>

definition getcwd :: "path prog" where
  "getcwd w =
     (if files w (cwd w) = Some Dir then (Return (cwd w), w)
      else (Raise (Exn ''FileNotFoundError'' ''getcwd''), w))"

definition chdir :: "path \<Rightarrow> unit prog" where
  "chdir p w =
     (case files w p of
        Some Dir \<Rightarrow> (Return (), w\<lparr>cwd := p\<rparr>)
      | Some (File c) \<Rightarrow> (Raise (Exn ''NotADirectoryError'' (str_path p)), w)
      | None \<Rightarrow> (Raise (Exn ''FileNotFoundError'' (str_path p)), w))"

text \<open>\<^verbatim>\<open>open(p, "w")\<close> followed by \<^verbatim>\<open>write(c)\<close>.\<close>

definition write_file :: "path \<Rightarrow> string \<Rightarrow> unit prog" where
  "write_file p c w =
     (if files w p = Some Dir then (Raise (Exn ''IsADirectoryError'' (str_path p)), w)
      else (Return (), w\<lparr>files := (files w)(p \<mapsto> File c)\<rparr>))"

text \<open>\<^verbatim>\<open>open(p, "r")\<close> followed by \<^verbatim>\<open>read()\<close>.\<close>

definition read_file :: "path \<Rightarrow> string prog" where
  "read_file p w =
     (case files w p of
        Some (File c) \<Rightarrow> (Return c, w)
      | Some Dir \<Rightarrow> (Raise (Exn ''IsADirectoryError'' (str_path p)), w)
      | None \<Rightarrow> (Raise (Exn ''FileNotFoundError'' (str_path p)), w))"

text \<open>\<^verbatim>\<open>Path.unlink\<close> and \<^verbatim>\<open>os.unlink\<close> remove a regular file and nothing else.\<close>

definition unlink :: "path \<Rightarrow> unit prog" where
  "unlink p w =
     (let w1 = emit (Unlink p) w in
      case files w p of
        Some (File c) \<Rightarrow> (Return (), w1\<lparr>files := (files w)(p := None)\<rparr>)
      | Some Dir \<Rightarrow> (Raise (Exn ''IsADirectoryError'' (str_path p)), w1)
      | None \<Rightarrow> (Raise (Exn ''FileNotFoundError'' (str_path p)), w1))"

text \<open>\<^verbatim>\<open>shutil.rmtree\<close> removes a directory and everything below it.\<close>

definition rmtree :: "path \<Rightarrow> unit prog" where
  "rmtree p w =
     (let w1 = emit (Rmtree p) w in
      case files w p of
        Some Dir \<Rightarrow> (Return (), w1\<lparr>files := (\<lambda>q. if prefix p q then None else files w q)\<rparr>)
      | Some (File c) \<Rightarrow> (Raise (Exn ''NotADirectoryError'' (str_path p)), w1)
      | None \<Rightarrow> (Raise (Exn ''FileNotFoundError'' (str_path p)), w1))"

text \<open>\<^verbatim>\<open>Path.mkdir(exist_ok=True)\<close>\<close>

definition mkdir_exist_ok :: "path \<Rightarrow> unit prog" where
  "mkdir_exist_ok p w =
     (case files w p of
        Some Dir \<Rightarrow> (Return (), w)
      | Some (File c) \<Rightarrow> (Raise (Exn ''FileExistsError'' (str_path p)), w)
      | None \<Rightarrow> (Return (), w\<lparr>files := (files w)(p \<mapsto> Dir)\<rparr>))"

text \<open>\<^verbatim>\<open>Path.mkdir(parents=True, exist_ok=True)\<close>: every missing ancestor is created; a
  regular file on the way is an error.\<close>

definition mkdir_parents :: "path \<Rightarrow> unit prog" where
  "mkdir_parents p w =
     (if list_ex (\<lambda>q. case files w q of Some (File c) \<Rightarrow> True | _ \<Rightarrow> False) (tl (prefixes p))
      then (Raise (Exn ''FileExistsError'' (str_path p)), w)
      else (Return (),
            w\<lparr>files := (\<lambda>q. if q \<noteq> [] \<and> prefix q p \<and> files w q = None then Some Dir
                             else files w q)\<rparr>))"

text \<open>Moving the node at \<open>src\<close>, with everything below it, to \<open>dst\<close>.\<close>

definition move_tree :: "path \<Rightarrow> path \<Rightarrow> (path \<Rightarrow> node option) \<Rightarrow> path \<Rightarrow> node option" where
  "move_tree src dst fs =
     (\<lambda>q. if prefix dst q then fs (src @ drop (length dst) q)
          else if prefix src q then None
          else fs q)"

text \<open>\<^verbatim>\<open>Path.rename\<close> (\<^verbatim>\<open>os.rename\<close>): a regular file replaces a regular file; a directory is
  moved to a free name. (\<^verbatim>\<open>os.rename\<close> also lets a directory replace an empty directory;
  the script removes the target before it renames a directory.)\<close>

definition rename :: "path \<Rightarrow> path \<Rightarrow> unit prog" where
  "rename src dst w =
     (case files w src of
        None \<Rightarrow> (Raise (Exn ''FileNotFoundError'' (str_path src)), w)
      | Some (File c) \<Rightarrow>
          (if files w dst = Some Dir then (Raise (Exn ''IsADirectoryError'' (str_path dst)), w)
           else (Return (), w\<lparr>files := move_tree src dst (files w)\<rparr>))
      | Some Dir \<Rightarrow>
          (if files w dst \<noteq> None then (Raise (Exn ''OSError'' (str_path dst)), w)
           else (Return (), w\<lparr>files := move_tree src dst (files w)\<rparr>)))"

text \<open>\<^verbatim>\<open>shutil.move\<close>: into \<open>dst\<close> when \<open>dst\<close> is a directory, onto \<open>dst\<close> otherwise.\<close>

definition shutil_move :: "path \<Rightarrow> path \<Rightarrow> unit prog" where
  "shutil_move src dst w =
     (if files w dst = Some Dir then
        (if files w (dst @ [name_of src]) \<noteq> None
         then (Raise (Exn ''Error'' (str_path (dst @ [name_of src]))), w)
         else rename src (dst @ [name_of src]) w)
      else rename src dst w)"

text \<open>\<^verbatim>\<open>shutil.copy2\<close> copies a regular file, into \<open>dst\<close> when \<open>dst\<close> is a directory.\<close>

definition copy2 :: "path \<Rightarrow> path \<Rightarrow> unit prog" where
  "copy2 src dst w =
     (case files w src of
        Some (File c) \<Rightarrow>
          (if files w dst = Some Dir then write_file (dst @ [name_of src]) c w
           else write_file dst c w)
      | Some Dir \<Rightarrow> (Raise (Exn ''IsADirectoryError'' (str_path src)), w)
      | None \<Rightarrow> (Raise (Exn ''FileNotFoundError'' (str_path src)), w))"

subsection \<open>The collaborators\<close>

text \<open>
  A collaborator that writes (a download, an archive being unpacked, a child process)
  creates files and directories and overwrites files; it cannot put a file where a
  directory is.
\<close>

definition put :: "path \<times> node \<Rightarrow> (path \<Rightarrow> node option) \<Rightarrow> path \<Rightarrow> node option" where
  "put e fs = (if fs (fst e) = Some Dir then fs else fs(fst e \<mapsto> snd e))"

definition urlretrieve :: "env \<Rightarrow> string \<Rightarrow> path \<Rightarrow> unit prog" where
  "urlretrieve env url destination w =
     (let w1 = emit (Urlretrieve url destination) w in
      case fetch env url of
        Fetched c \<Rightarrow>
          (if files w destination = Some Dir
           then (Raise (Exn ''IsADirectoryError'' (str_path destination)), w1)
           else (Return (), w1\<lparr>files := (files w)(destination \<mapsto> File c)\<rparr>))
      | Fetch_failed e partial \<Rightarrow>
          (Raise e,
           case partial of
             None \<Rightarrow> w1
           | Some c \<Rightarrow> w1\<lparr>files := put (destination, File c) (files w)\<rparr>))"

text \<open>\<^verbatim>\<open>subprocess.run(argv)\<close>: the child runs in the working directory of the process and
  leaves its files behind, whatever it answers.\<close>

definition subprocess_run :: "env \<Rightarrow> string list \<Rightarrow> (int \<times> string \<times> string) prog" where
  "subprocess_run env argv w =
     (let w1 = (emit (Run argv (cwd w)) w)\<lparr>files := fold put (run_writes env argv) (files w)\<rparr> in
      case run env argv of
        Completed rc out err \<Rightarrow> (Return (rc, out, err), w1)
      | Run_raised e \<Rightarrow> (Raise e, w1))"

text \<open>\<^verbatim>\<open>subprocess.run(argv, check=True)\<close>\<close>

definition subprocess_run_check :: "env \<Rightarrow> string list \<Rightarrow> (int \<times> string \<times> string) prog" where
  "subprocess_run_check env argv =
     pbind (subprocess_run env argv) (\<lambda>(rc, out, err).
       if rc \<noteq> 0 then raise_exn (Exn ''CalledProcessError'' (concat argv))
       else ret (rc, out, err))"

text \<open>Writing the members of an archive below \<open>base\<close>, in their order.\<close>

definition unpack ::
    "path \<Rightarrow> (path \<times> node) list \<Rightarrow> (path \<Rightarrow> node option) \<Rightarrow> path \<Rightarrow> node option" where
  "unpack base members fs = fold (\<lambda>(rel, n) fs. fs(base @ rel \<mapsto> n)) members fs"

text \<open>\<^verbatim>\<open>with tarfile.open(archive, mode) as tar: tar.extractall(extract_to)\<close>: the members
  the decoder yields are written below \<open>extract_to\<close> in their order, until the decoder
  fails, if it does.\<close>

definition tar_extractall :: "env \<Rightarrow> string \<Rightarrow> path \<Rightarrow> path \<Rightarrow> unit prog" where
  "tar_extractall env mode archive_path extract_to w =
     (let w1 = emit (Extractall archive_path extract_to) w in
      case files w archive_path of
        None \<Rightarrow> (Raise (Exn ''FileNotFoundError'' (str_path archive_path)), w1)
      | Some Dir \<Rightarrow> (Raise (Exn ''IsADirectoryError'' (str_path archive_path)), w1)
      | Some (File c) \<Rightarrow>
          (let w2 = w1\<lparr>files := unpack extract_to (fst (tar_open env mode c)) (files w)\<rparr> in
           case snd (tar_open env mode c) of
             None \<Rightarrow> (Return (), w2)
           | Some e \<Rightarrow> (Raise e, w2)))"

section \<open>The script\<close>

subsection \<open>\<^verbatim>\<open>download_file\<close>\<close>

definition download_file :: "env \<Rightarrow> string \<Rightarrow> path \<Rightarrow> bool \<Rightarrow> unit prog" where
  "download_file env url destination pull_always =
     pbind (path_exists destination) (\<lambda>ex.
       if ex \<and> \<not> pull_always then
         log_info (''File '' @ name_of destination @ '' already exists, skipping download'')
       else
         pseq (log_info (''Downloading '' @ url @ '' to '' @ str_path destination))
           (try_except
              (pseq (urlretrieve env url destination)
                 (log_success (''Downloaded '' @ name_of destination)))
              (\<lambda>e. pseq (log_error (''Failed to download '' @ url @ '': '' @ msg e))
                      (sys_exit 1))))"

subsection \<open>\<^verbatim>\<open>extract_tar_gz\<close>, \<^verbatim>\<open>extract_tar_xz\<close>\<close>

text \<open>\<^verbatim>\<open>extract_zip\<close> has the same shape and no caller; it is left out.\<close>

definition extract_tar_gz :: "env \<Rightarrow> path \<Rightarrow> path \<Rightarrow> unit prog" where
  "extract_tar_gz env archive_path extract_to =
     pseq (log_info (''Extracting '' @ name_of archive_path @ '' to '' @ str_path extract_to))
       (try_except
          (pseq (tar_extractall env ''r:gz'' archive_path extract_to)
             (log_success (''Extracted '' @ name_of archive_path)))
          (\<lambda>e. pseq (log_error (''Failed to extract '' @ str_path archive_path @ '': '' @ msg e))
                  (sys_exit 1)))"

definition extract_tar_xz :: "env \<Rightarrow> path \<Rightarrow> path \<Rightarrow> unit prog" where
  "extract_tar_xz env archive_path extract_to =
     pseq (log_info (''Extracting '' @ name_of archive_path @ '' to '' @ str_path extract_to))
       (try_except
          (pseq (tar_extractall env ''r:xz'' archive_path extract_to)
             (log_success (''Extracted '' @ name_of archive_path)))
          (\<lambda>e. pseq (log_error (''Failed to extract '' @ str_path archive_path @ '': '' @ msg e))
                  (sys_exit 1)))"

subsection \<open>\<^verbatim>\<open>validate_signature\<close>\<close>

text \<open>
  The \<^verbatim>\<open>with tempfile.NamedTemporaryFile(mode="w", suffix=".pub", delete=False)\<close> block:
  a new file is created under a name of the generator's choice, the key is written to it
  and its name is kept. With \<^verbatim>\<open>delete=False\<close> leaving the block does not remove the file.
\<close>

definition write_key_file :: "env \<Rightarrow> string \<Rightarrow> path prog" where
  "write_key_file env public_key w =
     (case named_temporary_file env of
        Inl e \<Rightarrow> (Raise e, w)
      | Inr key_file_path \<Rightarrow>
          (if files w key_file_path \<noteq> None
           then (Raise (Exn ''FileExistsError'' (str_path key_file_path)), w)
           else
             (case key_write env of
                Some e \<Rightarrow> (Raise e, w\<lparr>files := (files w)(key_file_path \<mapsto> File [])\<rparr>)
              | None \<Rightarrow>
                  (Return key_file_path,
                   w\<lparr>files := (files w)(key_file_path \<mapsto> File public_key)\<rparr>))))"

text \<open>The body of the second \<^verbatim>\<open>try\<close> block of \<^verbatim>\<open>validate_signature\<close>.\<close>

definition verify_with_key :: "env \<Rightarrow> path \<Rightarrow> string \<Rightarrow> bool prog" where
  "verify_with_key env archive_path public_key =
     pbind (write_key_file env public_key) (\<lambda>key_file_path.
     pseq (log_info (''Using public key: '' @ take 50 public_key @ ''...''))
    (pbind (subprocess_run env
              [''minisign'', ''-V'', ''-p'', str_path key_file_path,
               ''-m'', str_path archive_path]) (\<lambda>(returncode, stdout, stderr).
     pseq (unlink key_file_path)
       (if returncode = 0 then
          pseq (log_success ''Signature validation passed'') (ret True)
        else
          pseq (log_error (''Signature validation failed: '' @ stderr))
         (pseq (log_error (''minisign stdout: '' @ stdout))
            (ret False))))))"

text \<open>The first \<^verbatim>\<open>try\<close> block: is \<^verbatim>\<open>minisign\<close> there?\<close>

definition check_minisign :: "env \<Rightarrow> unit prog" where
  "check_minisign env =
     try_except_only [''CalledProcessError'', ''FileNotFoundError'']
       (pseq (subprocess_run_check env [''minisign'', ''-v'']) (ret ()))
       (pseq (log_error ''minisign is not installed. Please install it to validate signatures.'')
       (pseq (log_info ''Install with: sudo dnf install minisign'')
          (sys_exit 1)))"

definition validate_signature :: "env \<Rightarrow> path \<Rightarrow> path \<Rightarrow> string \<Rightarrow> bool prog" where
  "validate_signature env archive_path signature_path public_key =
     pseq (log_info ''Validating signature...'')
    (pseq (check_minisign env)
       (try_except
          (verify_with_key env archive_path public_key)
          (\<lambda>e. pseq (log_error (''Error during signature validation: '' @ msg e))
                  (ret False))))"

subsection \<open>\<^verbatim>\<open>setup_zig\<close>\<close>

text \<open>A version string is taken to be a single path component (it holds no \<^verbatim>\<open>/\<close>).\<close>

definition setup_zig :: "env \<Rightarrow> path \<Rightarrow> string \<Rightarrow> bool \<Rightarrow> unit prog" where
  "setup_zig env compiler_dir zig_version pull_always =
     (let zig_binary = compiler_dir @ [''zig''] in
      pbind (path_exists zig_binary) (\<lambda>ex.
      if ex \<and> \<not> pull_always then
        log_info ''Zig compiler already exists, skipping download''
      else
        pseq (log_info (''Setting up Zig compiler version '' @ zig_version @ ''...''))
       (pseq (mkdir_exist_ok compiler_dir)
       (let zig_url = ''https://ziglang.org/download/'' @ zig_version
                        @ ''/zig-x86_64-linux-'' @ zig_version @ ''.tar.xz'';
            zig_archive = compiler_dir @ [''zig.tar.xz''] in
        pseq (download_file env zig_url zig_archive pull_always)
       (pseq (extract_tar_xz env zig_archive compiler_dir)
       (let extracted_dir = compiler_dir @ [''zig-x86_64-linux-'' @ zig_version] in
        pseq
          (pbind (path_exists extracted_dir) (\<lambda>ex.
           if ex then
             (let zig_src = extracted_dir @ [''zig''] in
              pseq (pbind (path_exists zig_src) (\<lambda>ex.
                      if ex then rename zig_src zig_binary else ret ()))
             (let lib_src = extracted_dir @ [''lib''];
                  lib_dst = compiler_dir @ [''lib''] in
              pseq (pbind (path_exists lib_src) (\<lambda>ex.
                      if ex then
                        pseq (pbind (path_exists lib_dst) (\<lambda>ex.
                                if ex then rmtree lib_dst else ret ()))
                          (rename lib_src lib_dst)
                      else ret ()))
                (rmtree extracted_dir)))
           else ret ()))
       (pseq (unlink zig_archive)
          (log_success ''Zig compiler setup complete''))))))))"

subsection \<open>\<^verbatim>\<open>build_ghostty\<close>\<close>

text \<open>The \<^verbatim>\<open>PATH\<close> handed to the child is part of what decides the child's answer, which
  \<open>run env\<close> gives; \<open>compiler_dir\<close> has no other use.\<close>

definition build_ghostty :: "env \<Rightarrow> path \<Rightarrow> path \<Rightarrow> unit prog" where
  "build_ghostty env ghostty_dir compiler_dir =
     pseq (log_info ''Building Ghostty...'')
    (pbind getcwd (\<lambda>original_cwd.
     pseq (chdir ghostty_dir)
       (try_finally
          (pbind (subprocess_run env
                    [''zig'', ''build'', ''-p'', str_path (home env @ [''.local'']),
                     ''-Doptimize=ReleaseFast'']) (\<lambda>(returncode, stdout, stderr).
           if returncode \<noteq> 0 then
             pseq (log_error ''Build failed!'')
            (pseq (log_error stderr)
               (sys_exit 1))
           else log_success ''Build completed successfully''))
          (chdir original_cwd))))"

subsection \<open>\<^verbatim>\<open>install_desktop_file\<close>\<close>

text \<open>\<^verbatim>\<open>str.replace(old, new)\<close> for a non-empty \<open>old\<close>: the occurrences are replaced from
  the left, without overlap.\<close>

function replace :: "string \<Rightarrow> string \<Rightarrow> string \<Rightarrow> string" where
  "replace old new [] = []"
| "replace old new (c # cs) =
     (if old \<noteq> [] \<and> prefix old (c # cs)
      then new @ replace old new (drop (length old) (c # cs))
      else c # replace old new cs)"
  by pat_completeness auto
termination
  by (relation "measure (\<lambda>(old, new, s). length s)") auto

definition installed_binary :: "env \<Rightarrow> path" where
  "installed_binary env = home env @ [''.local'', ''bin'', ''ghostty'']"

definition app_desktop_path :: "env \<Rightarrow> path" where
  "app_desktop_path env = home env @ [''.local'', ''share'', ''applications'', ''ghostty.desktop'']"

definition dolphin_desktop_path :: "env \<Rightarrow> path" where
  "dolphin_desktop_path env =
     home env @ [''.local'', ''share'', ''kio'', ''servicemenus'', ''com.mitchellh.ghostty.desktop'']"

definition install_app_desktop_file :: "env \<Rightarrow> path \<Rightarrow> unit prog" where
  "install_app_desktop_file env ghostty_dir =
     pseq (log_info ''Installing application desktop file...'')
    (let source_desktop = ghostty_dir @ [''dist'', ''linux'', ''app.desktop.in''] in
     pbind (path_exists source_desktop) (\<lambda>ex.
     if \<not> ex then log_error (''Desktop file not found at '' @ str_path source_desktop)
     else
       (let applications_dir = home env @ [''.local'', ''share'', ''applications''] in
        pseq (mkdir_parents applications_dir)
       (let dest_desktop = applications_dir @ [''ghostty.desktop''] in
        try_except
          (pbind (read_file source_desktop) (\<lambda>content.
           let ghostty_path = str_path (home env @ [''.local'', ''bin'', ''ghostty'']);
               content = replace ''@GHOSTTY@'' ghostty_path content;
               content = replace ''@NAME@'' ''Ghostty'' content;
               content = replace ''@APPID@'' ''com.mitchellh.ghostty'' content in
           pseq (write_file dest_desktop content)
             (log_success (''Application desktop file installed to '' @ str_path dest_desktop))))
          (\<lambda>e. log_error (''Failed to install application desktop file: '' @ msg e))))))"

definition install_dolphin_desktop_file :: "env \<Rightarrow> path \<Rightarrow> unit prog" where
  "install_dolphin_desktop_file env ghostty_dir =
     pseq (log_info ''Installing Dolphin service menu desktop file...'')
    (let source_desktop = ghostty_dir @ [''dist'', ''linux'', ''ghostty_dolphin.desktop''] in
     pbind (path_exists source_desktop) (\<lambda>ex.
     if \<not> ex then log_error (''Dolphin desktop file not found at '' @ str_path source_desktop)
     else
       (let kio_dir = home env @ [''.local'', ''share'', ''kio'', ''servicemenus''] in
        pseq (mkdir_parents kio_dir)
       (let dest_desktop = kio_dir @ [''com.mitchellh.ghostty.desktop''] in
        try_except
          (pseq (copy2 source_desktop dest_desktop)
             (log_success (''Dolphin service menu desktop file installed to ''
                           @ str_path dest_desktop)))
          (\<lambda>e. log_error (''Failed to install Dolphin service menu desktop file: '' @ msg e))))))"

definition install_desktop_file :: "env \<Rightarrow> path \<Rightarrow> unit prog" where
  "install_desktop_file env ghostty_dir =
     pseq (log_info ''Installing desktop files...'')
    (pseq (install_app_desktop_file env ghostty_dir)
       (install_dolphin_desktop_file env ghostty_dir))"

subsection \<open>\<^verbatim>\<open>uninstall_ghostty\<close>\<close>

text \<open>
  The script repeats one block for each of the three artifacts. \<open>remove_item\<close> is that
  block: \<open>item\<close> is the label of the entry in \<^verbatim>\<open>removed_items\<close> or \<^verbatim>\<open>failed_items\<close> (and of
  the "not found" line), \<open>what\<close> the wording of the log line, and the pair holds the two
  lists.
\<close>

definition remove_item ::
    "string \<Rightarrow> string \<Rightarrow> path \<Rightarrow> string list \<times> string list \<Rightarrow> (string list \<times> string list) prog" where
  "remove_item item what p items =
     pbind (path_exists p) (\<lambda>ex.
     if ex then
       try_except
         (pseq (unlink p)
         (pseq (log_success (''Removed '' @ what @ '': '' @ str_path p))
            (ret (fst items @ [item @ '': '' @ str_path p], snd items))))
         (\<lambda>e. pseq (log_error (''Failed to remove '' @ what @ '' '' @ str_path p @ '': '' @ msg e))
                 (ret (fst items,
                       snd items @ [item @ '': '' @ str_path p @ '' ('' @ msg e @ '')''])))
     else
       pseq (log_info (item @ '' not found, skipping removal''))
         (ret items))"

primrec for_each :: "('a \<Rightarrow> unit prog) \<Rightarrow> 'a list \<Rightarrow> unit prog" where
  "for_each f [] = ret ()"
| "for_each f (x # xs) = pseq (f x) (for_each f xs)"

text \<open>The summary that ends \<^verbatim>\<open>uninstall_ghostty\<close>.\<close>

definition uninstall_summary :: "string list \<Rightarrow> string list \<Rightarrow> unit prog" where
  "uninstall_summary removed_items failed_items =
     pseq (if removed_items \<noteq> [] then
             pseq (log_success (''Successfully removed '' @ str_nat (length removed_items)
                                @ '' items:''))
               (for_each (\<lambda>item. log_info (''  - '' @ item)) removed_items)
           else ret ())
    (pseq (if failed_items \<noteq> [] then
             pseq (log_error (''Failed to remove '' @ str_nat (length failed_items)
                              @ '' items:''))
            (pseq (for_each (\<lambda>item. log_error (''  - '' @ item)) failed_items)
               (sys_exit 1))
           else ret ())
       (if removed_items = [] \<and> failed_items = [] then
          log_warning ''No Ghostty artifacts found to remove''
        else
          log_success ''Ghostty uninstallation completed successfully''))"

definition uninstall_ghostty :: "env \<Rightarrow> unit prog" where
  "uninstall_ghostty env =
     pseq (log_info ''Uninstalling Ghostty...'')
    (pbind (remove_item ''Binary'' ''binary'' (installed_binary env) ([], [])) (\<lambda>items.
     pbind (remove_item ''Application desktop file'' ''application desktop file''
              (app_desktop_path env) items) (\<lambda>items.
     pbind (remove_item ''Dolphin service menu'' ''Dolphin service menu''
              (dolphin_desktop_path env) items) (\<lambda>(removed_items, failed_items).
     uninstall_summary removed_items failed_items))))"

subsection \<open>\<^verbatim>\<open>verify_build\<close>\<close>

definition verify_build :: "env \<Rightarrow> bool prog" where
  "verify_build env =
     pseq (log_info ''Verifying build artifacts...'')
    (let ghostty_binary = home env @ [''.local'', ''bin'', ''ghostty''] in
     pbind (path_exists ghostty_binary) (\<lambda>ex.
     if ex then
       pseq (log_success (''Ghostty binary found at '' @ str_path ghostty_binary)) (ret True)
     else
       pseq (log_error (''Ghostty binary not found at '' @ str_path ghostty_binary)) (ret False)))"

subsection \<open>The container build\<close>

definition check_podman :: "env \<Rightarrow> bool prog" where
  "check_podman env =
     try_except_only [''CalledProcessError'', ''FileNotFoundError'']
       (pseq (subprocess_run_check env [''podman'', ''--version'']) (ret True))
       (pseq (log_error ''podman is not installed. Please install it to use --container'')
       (pseq (log_info ''Install with: sudo dnf install podman'')
          (ret False)))"

definition extract_artifacts_from_container ::
    "env \<Rightarrow> string \<Rightarrow> string \<Rightarrow> path \<Rightarrow> (path \<times> path) prog" where
  "extract_artifacts_from_container env container_name version temp_dir =
     pseq (log_info ''Extracting binary from container...'')
    (let binary_path = temp_dir @ [''ghostty''] in
     pbind (subprocess_run env
              [''podman'', ''cp'', container_name @ '':/build/output/bin/ghostty'',
               str_path binary_path]) (\<lambda>(returncode, stdout, stderr).
     if returncode \<noteq> 0 then
       pseq (log_error (''Failed to extract binary from container: '' @ stderr))
         (raise_exn (Exn ''RuntimeError'' ''Binary extraction failed''))
     else
       pseq (log_success ''Binary extracted successfully'')
      (pseq (log_info ''Extracting desktop files from container...'')
      (let dist_dir = temp_dir @ [''dist''] in
       pbind (subprocess_run env
                [''podman'', ''cp'', container_name @ '':/build/ghostty-'' @ version @ ''/dist'',
                 str_path dist_dir]) (\<lambda>(returncode, stdout, stderr).
       if returncode \<noteq> 0 then
         pseq (log_error (''Failed to extract desktop files from container: '' @ stderr))
           (raise_exn (Exn ''RuntimeError'' ''Desktop files extraction failed''))
       else
         pseq (log_success ''Desktop files extracted successfully'')
           (ret (binary_path, dist_dir)))))))"

text \<open>\<^verbatim>\<open>tempfile.mkdtemp(prefix="ghostty-container-")\<close> creates a new directory under a name of
  the generator's choice.\<close>

definition make_temp_dir :: "env \<Rightarrow> path prog" where
  "make_temp_dir env w =
     (case mkdtemp env of
        Inl e \<Rightarrow> (Raise e, w)
      | Inr temp_dir \<Rightarrow>
          (if files w temp_dir \<noteq> None
           then (Raise (Exn ''FileExistsError'' (str_path temp_dir)), w)
           else (Return temp_dir, (emit (Mkdtemp temp_dir) w)\<lparr>files := (files w)(temp_dir \<mapsto> Dir)\<rparr>)))"

text \<open>
  \<^verbatim>\<open>build_ghostty_container\<close> is a sequence of three parts: the checks and the build of
  the image, which end the process when they fail; the two nested \<^verbatim>\<open>try\<close> ... \<^verbatim>\<open>finally\<close>
  blocks, entered once the temporary directory exists; and the check of the installation.
  Each block and each \<^verbatim>\<open>finally\<close> clause is given a name. \<^verbatim>\<open>chmod(0o755)\<close> on the file just
  copied changes no node of the map.
\<close>

definition print :: "string \<Rightarrow> unit prog" where
  "print s w = (Return (), emit (Print s) w)"

definition build_image :: "env \<Rightarrow> string \<Rightarrow> string \<Rightarrow> bool \<Rightarrow> unit prog" where
  "build_image env version zig_version no_cache =
     pbind (check_podman env) (\<lambda>ok.
     if \<not> ok then sys_exit 1
     else
       pbind getcwd (\<lambda>current.
       let containerfile = current @ [''Containerfile''] in
       pbind (path_exists containerfile) (\<lambda>ex.
       if \<not> ex then
         pseq (log_error (''Containerfile not found at '' @ str_path containerfile))
        (pseq (log_error ''Please ensure Containerfile is in the current directory'')
           (sys_exit 1))
       else
         pseq (log_info (''Building Ghostty '' @ version @ '' using container with Zig ''
                         @ zig_version @ ''...''))
        (let build_cmd =
               [''podman'', ''build'', ''-t'', ''ghostty-builder:'' @ version,
                ''--build-arg'', ''GHOSTTY_VERSION='' @ version,
                ''--build-arg'', ''ZIG_VERSION='' @ zig_version,
                ''-f'', ''Containerfile'', ''.''];
             build_cmd = (if no_cache then take 2 build_cmd @ [''--no-cache''] @ drop 2 build_cmd
                          else build_cmd) in
         pseq (log_info ''Building container image (this may take a few minutes)...'')
        (pbind (subprocess_run env build_cmd) (\<lambda>(returncode, stdout, stderr).
         if returncode \<noteq> 0 then
           pseq (log_error ''Container build failed!'')
          (pseq (if stdout \<noteq> [] then print stdout else ret ())
          (pseq (if stderr \<noteq> [] then print stderr else ret ())
             (sys_exit 1)))
         else
           log_success ''Container image built successfully''))))))"

text \<open>The body of the inner \<^verbatim>\<open>try\<close>: copy the artifacts out and install them.\<close>

definition extract_and_install :: "env \<Rightarrow> string \<Rightarrow> string \<Rightarrow> path \<Rightarrow> unit prog" where
  "extract_and_install env version container_name temp_dir =
     pbind (extract_artifacts_from_container env container_name version temp_dir)
       (\<lambda>(binary_path, dist_dir).
     pseq (log_info ''Installing binary to ~/.local/bin...'')
    (let bin_dir = home env @ [''.local'', ''bin''] in
     pseq (mkdir_parents bin_dir)
    (let dest_binary = bin_dir @ [''ghostty''] in
     pseq (copy2 binary_path dest_binary)
    (pseq (log_success (''Binary installed to '' @ str_path dest_binary))
    (pseq (log_info ''Installing desktop files...'')
    (let ghostty_temp_dir = temp_dir @ [''ghostty-source''] in
     pseq (mkdir_exist_ok ghostty_temp_dir)
    (pseq (shutil_move dist_dir (ghostty_temp_dir @ [''dist'']))
       (install_desktop_file env ghostty_temp_dir))))))))"

text \<open>The inner \<^verbatim>\<open>finally\<close>: the return code of \<^verbatim>\<open>podman rm\<close> is not looked at.\<close>

definition remove_container :: "env \<Rightarrow> string \<Rightarrow> unit prog" where
  "remove_container env container_name =
     pseq (log_info ''Cleaning up container...'')
    (pseq (subprocess_run env [''podman'', ''rm'', container_name])
       (log_success ''Container removed''))"

definition create_argv :: "string \<Rightarrow> string \<Rightarrow> string list" where
  "create_argv version container_name =
     [''podman'', ''create'', ''--name'', container_name, ''ghostty-builder:'' @ version]"

text \<open>The body of the outer \<^verbatim>\<open>try\<close>.\<close>

definition create_and_extract :: "env \<Rightarrow> string \<Rightarrow> string \<Rightarrow> path \<Rightarrow> unit prog" where
  "create_and_extract env version container_name temp_dir =
     pseq (log_info ''Creating temporary container for artifact extraction...'')
    (pbind (subprocess_run env (create_argv version container_name))
       (\<lambda>(returncode, stdout, stderr).
     if returncode \<noteq> 0 then
       pseq (log_error (''Failed to create container: '' @ stderr))
         (sys_exit 1)
     else
       try_finally
         (extract_and_install env version container_name temp_dir)
         (remove_container env container_name)))"

text \<open>The outer \<^verbatim>\<open>finally\<close>.\<close>

definition remove_temp_dir :: "path \<Rightarrow> unit prog" where
  "remove_temp_dir temp_dir =
     pbind (path_exists temp_dir) (\<lambda>ex.
     if ex then rmtree temp_dir else ret ())"

definition container_install :: "env \<Rightarrow> string \<Rightarrow> string \<Rightarrow> path \<Rightarrow> unit prog" where
  "container_install env version container_name temp_dir =
     try_finally
       (create_and_extract env version container_name temp_dir)
       (remove_temp_dir temp_dir)"

definition verify_container_build :: "env \<Rightarrow> unit prog" where
  "verify_container_build env =
     pbind (verify_build env) (\<lambda>ok.
     if ok then
       pseq (log_success ''Container build verification passed!'')
         (log_info ''Ghostty has been successfully built and installed to $HOME/.local'')
     else
       pseq (log_error ''Container build verification failed!'')
         (sys_exit 1))"

definition build_ghostty_container :: "env \<Rightarrow> string \<Rightarrow> string \<Rightarrow> bool \<Rightarrow> unit prog" where
  "build_ghostty_container env version zig_version no_cache =
     pseq (build_image env version zig_version no_cache)
    (let random_suffix = random_choices env;
         container_name = ''ghostty-extract-'' @ random_suffix in
     pbind (make_temp_dir env) (\<lambda>temp_dir.
     pseq (container_install env version container_name temp_dir)
       (verify_container_build env)))"

subsection \<open>\<^verbatim>\<open>main\<close>\<close>

text \<open>What \<^verbatim>\<open>parser.parse_args()\<close> returns.\<close>

record args =
  version :: string
  uninstall :: bool
  container :: bool
  zig_version :: string
  no_cache :: bool
  pull_always :: bool
  skip_signature :: bool
  skip_build :: bool

definition public_key :: string where
  "public_key = ''untrusted comment: minisign public key 0x23149WL2sEpT'' @ [CHR 0x0A]
                @ ''RWQlAjJC23149WL2sEpT/l0QKy7hMIFhYdQOFy0Z7z7PbneUgvlsnYcV''"

text \<open>
  The local build of \<^verbatim>\<open>main\<close> is a sequence of four steps, each given a name here:
  downloading the release and its signature, the signature gate, the extraction of the
  release, and the build with the installation and its check.
\<close>

definition acquire_release :: "env \<Rightarrow> string \<Rightarrow> bool \<Rightarrow> (path \<times> path) prog" where
  "acquire_release env release refresh =
     pseq (log_info (''Building Ghostty release '' @ release))
    (let ghostty_url = ''https://release.files.ghostty.org/'' @ release @ ''/ghostty-''
                       @ release @ ''.tar.gz'' in
     pbind getcwd (\<lambda>current.
     let ghostty_archive = current @ [''ghostty-'' @ release @ ''.tar.gz''] in
     pseq (download_file env ghostty_url ghostty_archive refresh)
    (let signature_url = ''https://release.files.ghostty.org/'' @ release @ ''/ghostty-''
                         @ release @ ''.tar.gz.minisig'' in
     pbind getcwd (\<lambda>current.
     let signature_file = current @ [''ghostty-'' @ release @ ''.tar.gz.minisig''] in
     pseq (download_file env signature_url signature_file refresh)
       (ret (ghostty_archive, signature_file))))))"

definition signature_gate :: "env \<Rightarrow> bool \<Rightarrow> path \<Rightarrow> path \<Rightarrow> unit prog" where
  "signature_gate env skip ghostty_archive signature_file =
     (if skip then
        log_warning ''Skipping signature validation (not recommended)''
      else
        pbind (validate_signature env ghostty_archive signature_file public_key) (\<lambda>valid.
        if \<not> valid then
          pseq (log_error ''Signature validation failed, aborting build'')
            (sys_exit 1)
        else ret ()))"

definition extract_release :: "env \<Rightarrow> string \<Rightarrow> path \<Rightarrow> path prog" where
  "extract_release env release ghostty_archive =
     pbind getcwd (\<lambda>current.
     let ghostty_dir = current @ [''ghostty-'' @ release] in
     pseq (pbind (path_exists ghostty_dir) (\<lambda>ex.
             if ex then rmtree ghostty_dir else ret ()))
    (pbind getcwd (\<lambda>current.
     pseq (extract_tar_gz env ghostty_archive current)
       (ret ghostty_dir))))"

definition verify_local_build :: "env \<Rightarrow> unit prog" where
  "verify_local_build env =
     pbind (verify_build env) (\<lambda>ok.
     if ok then
       pseq (log_success ''Build verification passed!'')
         (log_info ''Ghostty has been successfully built and installed to $HOME/.local'')
     else
       pseq (log_error ''Build verification failed!'')
         (sys_exit 1))"

definition build_and_install :: "env \<Rightarrow> args \<Rightarrow> path \<Rightarrow> unit prog" where
  "build_and_install env a ghostty_dir =
     (if skip_build a then
        pseq (log_info ''Skipping build and installation steps'')
       (pseq (log_success (''Ghostty source code extracted to '' @ str_path ghostty_dir))
          (log_info ''Use the script without --skip-build to build and install Ghostty''))
      else
        pbind getcwd (\<lambda>current.
        let compiler_dir = current @ [''compiler''] in
        pseq (setup_zig env compiler_dir (zig_version a) (pull_always a))
       (pseq (build_ghostty env ghostty_dir compiler_dir)
       (pseq (install_desktop_file env ghostty_dir)
          (verify_local_build env)))))"

definition local_build :: "env \<Rightarrow> args \<Rightarrow> unit prog" where
  "local_build env a =
     pbind (acquire_release env (version a) (pull_always a)) (\<lambda>(ghostty_archive, signature_file).
     pseq (signature_gate env (skip_signature a) ghostty_archive signature_file)
    (pbind (extract_release env (version a) ghostty_archive) (\<lambda>ghostty_dir.
     build_and_install env a ghostty_dir)))"

definition main :: "env \<Rightarrow> args \<Rightarrow> unit prog" where
  "main env a =
     (if uninstall a then uninstall_ghostty env
      else if container a then
        pseq (if skip_build a then log_warning ''--skip-build ignored when using --container''
              else ret ())
       (pseq (if skip_signature a then
                log_warning ''--skip-signature ignored when using --container (signature always verified)''
              else ret ())
       (pseq (if pull_always a then
                log_warning ''--pull-always ignored when using --container (always downloads fresh)''
              else ret ())
       (pseq (if no_cache a then
                log_info ''Using --no-cache: container will be rebuilt without cache''
              else ret ())
          (build_ghostty_container env (version a) (zig_version a) (no_cache a)))))
      else local_build env a)"

section \<open>What is observed of a run\<close>

definition is_transfer :: "event \<Rightarrow> bool" where
  "is_transfer e = (case e of Urlretrieve u d \<Rightarrow> True | _ \<Rightarrow> False)"

text \<open>Signature validation shows as a run of \<^verbatim>\<open>minisign\<close>: \<^verbatim>\<open>validate_signature\<close> starts one
  before anything else can end it.\<close>

definition is_validation :: "event \<Rightarrow> bool" where
  "is_validation e = (case e of Run argv d \<Rightarrow> take 1 argv = [''minisign''] | _ \<Rightarrow> False)"

text \<open>The extraction step shows as an archive being unpacked or as a tree being removed.\<close>

definition is_extraction :: "event \<Rightarrow> bool" where
  "is_extraction e = (case e of Extractall a t \<Rightarrow> True | Rmtree p \<Rightarrow> True | _ \<Rightarrow> False)"

definition is_unlink :: "event \<Rightarrow> bool" where
  "is_unlink e = (case e of Unlink p \<Rightarrow> True | _ \<Rightarrow> False)"

text \<open>The three artifacts an installation leaves, in the order \<^verbatim>\<open>uninstall_ghostty\<close> visits
  them.\<close>

definition artifacts :: "env \<Rightarrow> path list" where
  "artifacts env = [installed_binary env, app_desktop_path env, dolphin_desktop_path env]"

definition is_file :: "(path \<Rightarrow> node option) \<Rightarrow> path \<Rightarrow> bool" where
  "is_file fs p = (case fs p of Some (File c) \<Rightarrow> True | _ \<Rightarrow> False)"

text \<open>An artifact is there and removing it raises.\<close>

definition removal_fails :: "world \<Rightarrow> path \<Rightarrow> bool" where
  "removal_fails w p = (files w p \<noteq> None \<and> fst (unlink p w) \<noteq> Return ())"

text \<open>The command line of the build.\<close>

definition zig_argv :: "env \<Rightarrow> string list" where
  "zig_argv env = [''zig'', ''build'', ''-p'', str_path (home env @ [''.local'']),
                   ''-Doptimize=ReleaseFast'']"

definition is_mkdtemp :: "event \<Rightarrow> bool" where
  "is_mkdtemp e = (case e of Mkdtemp t \<Rightarrow> True | _ \<Rightarrow> False)"

text \<open>The removal of the container \<open>name\<close> shows as a run of \<^verbatim>\<open>podman rm\<close>.\<close>

definition is_container_removal :: "string \<Rightarrow> event \<Rightarrow> bool" where
  "is_container_removal name e = (case e of Run argv d \<Rightarrow> argv = [''podman'', ''rm'', name] | _ \<Rightarrow> False)"

text \<open>A program that always adds to the trace an event of one kind.\<close>

definition emits :: "(event \<Rightarrow> bool) \<Rightarrow> 'a prog \<Rightarrow> bool" where
  "emits Q m = (\<forall>w. \<exists>es. trace (snd (m w)) = trace w @ es \<and> list_ex Q es)"

text \<open>A program that adds to the trace events of one kind only, and never rewrites it.\<close>

definition only :: "(event \<Rightarrow> bool) \<Rightarrow> 'a prog \<Rightarrow> bool" where
  "only P m = (\<forall>w. \<exists>es. trace (snd (m w)) = trace w @ es \<and> list_all P es)"

text \<open>A program that keeps an invariant of the world, however it ends.\<close>

definition keeps :: "(world \<Rightarrow> bool) \<Rightarrow> 'a prog \<Rightarrow> bool" where
  "keeps I m = (\<forall>w. I w \<longrightarrow> I (snd (m w)))"

text \<open>The invariant used most: \<open>t\<close> is a directory and the working directory is \<open>c\<close>.\<close>

definition dir_at :: "path \<Rightarrow> path \<Rightarrow> world \<Rightarrow> bool" where
  "dir_at t c w = (files w t = Some Dir \<and> cwd w = c)"

section \<open>Concrete runs\<close>

text \<open>A small world in which every collaborator succeeds, and variations of it.\<close>

definition env0 :: env where
  "env0 = \<lparr>home = [''h''], fetch = (\<lambda>_. Fetched ''data''), run = (\<lambda>_. Completed 0 [] []),
           run_writes = (\<lambda>_. []), tar_open = (\<lambda>_ _. ([], None)),
           named_temporary_file = Inr [''tmp'', ''key.pub''], key_write = None,
           mkdtemp = Inr [''tmp'', ''d''], random_choices = ''abcdefgh''\<rparr>"

definition w0 :: world where
  "w0 = \<lparr>files = [[''w''] \<mapsto> Dir, [''tmp''] \<mapsto> Dir], cwd = [''w''], trace = []\<rparr>"

definition args0 :: args where
  "args0 = \<lparr>version = ''1'', uninstall = False, container = False, zig_version = ''2'',
            no_cache = False, pull_always = False, skip_signature = False, skip_build = False\<rparr>"

text \<open>\<^verbatim>\<open>minisign\<close> is there and rejects the signature.\<close>

definition env_reject :: env where
  "env_reject = env0\<lparr>run := (\<lambda>argv. if argv = [''minisign'', ''-v''] then Completed 0 [] []
                                   else Completed 1 [] ''bad'')\<rparr>"

text \<open>Everything at once: the binary is a directory, so that its removal fails, and the two
  descriptors are regular files.\<close>

definition w_mixed :: world where
  "w_mixed = w0\<lparr>files := [[''h'', ''.local'', ''bin'', ''ghostty''] \<mapsto> Dir,
       [''h'', ''.local'', ''share'', ''applications'', ''ghostty.desktop''] \<mapsto> File ''a'',
       [''h'', ''.local'', ''share'', ''kio'', ''servicemenus'', ''com.mitchellh.ghostty.desktop'']
          \<mapsto> File ''b'']\<rparr>"

text \<open>A release with one file in it, and a world in which a stale tree is in the way.\<close>

definition env_tar :: env where
  "env_tar = env0\<lparr>tar_open := (\<lambda>_ _. ([([''ghostty-1''], Dir),
                                          ([''ghostty-1'', ''build.zig''], File ''new'')], None))\<rparr>"

definition w_stale :: world where
  "w_stale = w0\<lparr>files := [[''w''] \<mapsto> Dir, [''w'', ''ghostty-1.tar.gz''] \<mapsto> File ''tgz'',
       [''w'', ''ghostty-1''] \<mapsto> Dir, [''w'', ''ghostty-1'', ''old.txt''] \<mapsto> File ''old'']\<rparr>"

text \<open>The build fails.\<close>

definition env_zig_fails :: env where
  "env_zig_fails = env0\<lparr>run := (\<lambda>_. Completed 1 [] ''error: build failed'')\<rparr>"

definition w_src :: world where
  "w_src = w0\<lparr>files := [[''w''] \<mapsto> Dir, [''w'', ''ghostty-1''] \<mapsto> Dir]\<rparr>"

text \<open>The image builds and the container is created, but nothing can be copied out of it.\<close>

definition env_cp_fails :: env where
  "env_cp_fails = env0\<lparr>run := (\<lambda>argv. if take 2 argv = [''podman'', ''cp'']
                                      then Completed 1 [] ''no such file''
                                      else Completed 0 [] [])\<rparr>"

definition w_recipe :: world where
  "w_recipe = w0\<lparr>files := [[''w''] \<mapsto> Dir, [''w'', ''Containerfile''] \<mapsto> File ''FROM fedora'',
       [''tmp''] \<mapsto> Dir]\<rparr>"

text \<open>\<^verbatim>\<open>minisign\<close> is there, and \<^verbatim>\<open>subprocess.run\<close> raises on the verification run.\<close>

definition env_raise :: env where
  "env_raise = env0\<lparr>run := (\<lambda>argv. if argv = [''minisign'', ''-v''] then Completed 0 [] []
                                  else Run_raised (Exn ''UnicodeDecodeError'' ''invalid start byte''))\<rparr>"

text \<open>The temporary directory is full: the key file is created and the write fails.\<close>

definition env_full :: env where
  "env_full = env0\<lparr>key_write := Some (Exn ''OSError'' ''No space left on device'')\<rparr>"

section \<open>Properties\<close>

named_theorems prog_defs

lemmas [prog_defs] = ret_def raise_exn_def sys_exit_def pbind_def pseq_def try_except_def
  try_except_only_def try_finally_def emit_def log_info_def log_success_def
  log_warning_def log_error_def path_exists_def print_def

lemma onlyI: "(\<And>w. \<exists>es. trace (snd (m w)) = trace w @ es \<and> list_all P es) \<Longrightarrow> only P m"
  by (simp add: only_def)

lemma onlyD: "only P m \<Longrightarrow> \<exists>es. trace (snd (m w)) = trace w @ es \<and> list_all P es"
  by (simp add: only_def)

lemma only_weaken: "only P m \<Longrightarrow> (\<And>e. P e \<Longrightarrow> Q e) \<Longrightarrow> only Q m"
  unfolding only_def list_all_iff by blast

lemma only_ret: "only P (ret x)"
  by (simp add: only_def ret_def)

lemma only_raise_exn: "only P (raise_exn e)"
  by (simp add: only_def raise_exn_def)

lemma only_sys_exit: "only P (sys_exit n)"
  by (simp add: only_def sys_exit_def)

lemma only_pbind:
  assumes "only P m" and "\<And>x. only P (f x)"
  shows "only P (pbind m f)"
proof (rule onlyI)
  fix w
  obtain r w1 where mw: "m w = (r, w1)" by (cases "m w")
  from onlyD [OF assms(1), of w] mw obtain es1
    where es1: "trace w1 = trace w @ es1" "list_all P es1" by auto
  show "\<exists>es. trace (snd (pbind m f w)) = trace w @ es \<and> list_all P es"
  proof (cases r)
    case (Return x)
    from onlyD [OF assms(2), of x w1] obtain es2
      where es2: "trace (snd (f x w1)) = trace w1 @ es2" "list_all P es2" by auto
    have "trace (snd (pbind m f w)) = trace w @ (es1 @ es2)"
      using mw Return es1 es2 by (simp add: pbind_def)
    moreover have "list_all P (es1 @ es2)" using es1 es2 by simp
    ultimately show ?thesis by blast
  next
    case (Raise e)
    then show ?thesis using mw es1 by (auto simp: pbind_def)
  next
    case (Exit n)
    then show ?thesis using mw es1 by (auto simp: pbind_def)
  qed
qed

lemma only_pseq: "only P m \<Longrightarrow> only P k \<Longrightarrow> only P (pseq m k)"
  unfolding pseq_def by (rule only_pbind)

lemma only_try_except:
  assumes "only P m" and "\<And>e. only P (h e)"
  shows "only P (try_except m h)"
proof (rule onlyI)
  fix w
  obtain r w1 where mw: "m w = (r, w1)" by (cases "m w")
  from onlyD [OF assms(1), of w] mw obtain es1
    where es1: "trace w1 = trace w @ es1" "list_all P es1" by auto
  show "\<exists>es. trace (snd (try_except m h w)) = trace w @ es \<and> list_all P es"
  proof (cases r)
    case (Raise e)
    from onlyD [OF assms(2), of e w1] obtain es2
      where es2: "trace (snd (h e w1)) = trace w1 @ es2" "list_all P es2" by auto
    have "trace (snd (try_except m h w)) = trace w @ (es1 @ es2)"
      using mw Raise es1 es2 by (simp add: try_except_def)
    moreover have "list_all P (es1 @ es2)" using es1 es2 by simp
    ultimately show ?thesis by blast
  next
    case (Return x)
    then show ?thesis using mw es1 by (auto simp: try_except_def)
  next
    case (Exit n)
    then show ?thesis using mw es1 by (auto simp: try_except_def)
  qed
qed

lemma only_try_except_only:
  assumes "only P m" and "only P h"
  shows "only P (try_except_only cs m h)"
proof (rule onlyI)
  fix w
  obtain r w1 where mw: "m w = (r, w1)" by (cases "m w")
  from onlyD [OF assms(1), of w] mw obtain es1
    where es1: "trace w1 = trace w @ es1" "list_all P es1" by auto
  from onlyD [OF assms(2), of w1] obtain es2
    where es2: "trace (snd (h w1)) = trace w1 @ es2" "list_all P es2" by auto
  have "list_all P (es1 @ es2)" using es1 es2 by simp
  then show "\<exists>es. trace (snd (try_except_only cs m h w)) = trace w @ es \<and> list_all P es"
    using mw es1 es2 by (cases r) (auto simp: try_except_only_def)
qed

lemma only_try_finally:
  assumes "only P m" and "only P fin"
  shows "only P (try_finally m fin)"
proof (rule onlyI)
  fix w
  obtain r w1 where mw: "m w = (r, w1)" by (cases "m w")
  from onlyD [OF assms(1), of w] mw obtain es1
    where es1: "trace w1 = trace w @ es1" "list_all P es1" by auto
  obtain r2 w2 where fw: "fin w1 = (r2, w2)" by (cases "fin w1")
  from onlyD [OF assms(2), of w1] fw obtain es2
    where es2: "trace w2 = trace w1 @ es2" "list_all P es2" by auto
  have "list_all P (es1 @ es2)" using es1 es2 by simp
  moreover have "trace (snd (try_finally m fin w)) = trace w @ (es1 @ es2)"
    using mw fw es1 es2 by (cases r2) (auto simp: try_finally_def)
  ultimately show "\<exists>es. trace (snd (try_finally m fin w)) = trace w @ es \<and> list_all P es"
    by blast
qed

lemma only_if: "(c \<Longrightarrow> only P a) \<Longrightarrow> (\<not> c \<Longrightarrow> only P b) \<Longrightarrow> only P (if c then a else b)"
  by simp

lemma only_case_prod: "(\<And>a b. only P (f a b)) \<Longrightarrow> only P (case_prod f x)"
  by (cases x) simp

lemma only_silent: "(\<And>w. trace (snd (m w)) = trace w) \<Longrightarrow> only P m"
  by (simp add: only_def)

lemma only_log_info: "P (Log Info s) \<Longrightarrow> only P (log_info s)"
  by (simp add: only_def log_info_def emit_def)

lemma only_log_success: "P (Log Success s) \<Longrightarrow> only P (log_success s)"
  by (simp add: only_def log_success_def emit_def)

lemma only_log_warning: "P (Log Warning s) \<Longrightarrow> only P (log_warning s)"
  by (simp add: only_def log_warning_def emit_def)

lemma only_log_error: "P (Log Error s) \<Longrightarrow> only P (log_error s)"
  by (simp add: only_def log_error_def emit_def)

lemma only_print: "P (Print s) \<Longrightarrow> only P (print s)"
  by (simp add: only_def print_def emit_def)

lemma only_path_exists: "only P (path_exists p)"
  by (simp add: only_def path_exists_def)

lemma only_getcwd: "only P getcwd"
  by (simp add: only_def getcwd_def)

lemma only_chdir: "only P (chdir p)"
  by (rule only_silent) (simp add: chdir_def split: option.splits node.splits)

lemma only_write_file: "only P (write_file p c)"
  by (rule only_silent) (simp add: write_file_def)

lemma only_read_file: "only P (read_file p)"
  by (rule only_silent) (simp add: read_file_def split: option.splits node.splits)

lemma only_mkdir_exist_ok: "only P (mkdir_exist_ok p)"
  by (rule only_silent) (simp add: mkdir_exist_ok_def split: option.splits node.splits)

lemma only_mkdir_parents: "only P (mkdir_parents p)"
  by (rule only_silent) (simp add: mkdir_parents_def)

lemma only_rename: "only P (rename p q)"
  by (rule only_silent) (simp add: rename_def split: option.splits node.splits)

lemma only_shutil_move: "only P (shutil_move p q)"
  by (rule only_silent)
    (simp add: shutil_move_def rename_def split: option.splits node.splits)

lemma only_copy2: "only P (copy2 p q)"
  by (rule only_silent)
    (simp add: copy2_def write_file_def split: option.splits node.splits)

lemma only_unlink: "P (Unlink p) \<Longrightarrow> only P (unlink p)"
  by (rule onlyI)
    (simp add: unlink_def emit_def Let_def split: option.splits node.splits)

lemma only_rmtree: "P (Rmtree p) \<Longrightarrow> only P (rmtree p)"
  by (rule onlyI)
    (simp add: rmtree_def emit_def Let_def split: option.splits node.splits)

lemma only_urlretrieve: "P (Urlretrieve u d) \<Longrightarrow> only P (urlretrieve env u d)"
  by (rule onlyI)
    (simp add: urlretrieve_def emit_def Let_def split: fetch_result.splits option.splits)

lemma only_subprocess_run: "(\<And>d. P (Run argv d)) \<Longrightarrow> only P (subprocess_run env argv)"
  by (rule onlyI)
    (simp add: subprocess_run_def emit_def Let_def split: proc_result.splits)

lemma only_subprocess_run_check:
  "(\<And>d. P (Run argv d)) \<Longrightarrow> only P (subprocess_run_check env argv)"
  unfolding subprocess_run_check_def
  by (intro only_pbind only_subprocess_run only_case_prod only_if only_raise_exn only_ret)

lemma only_tar_extractall:
  "P (Extractall a t) \<Longrightarrow> only P (tar_extractall env mode a t)"
  by (rule onlyI)
    (simp add: tar_extractall_def emit_def Let_def split: option.splits node.splits)

lemma only_write_key_file: "only P (write_key_file env k)"
  by (rule only_silent)
    (simp add: write_key_file_def split: sum.splits option.splits)

lemma only_make_temp_dir: "(\<And>t. P (Mkdtemp t)) \<Longrightarrow> only P (make_temp_dir env)"
  by (rule onlyI) (simp add: make_temp_dir_def emit_def split: sum.splits)

lemma only_for_each: "(\<And>x. only P (f x)) \<Longrightarrow> only P (for_each f xs)"
  by (induction xs) (simp_all add: only_ret only_pseq)

lemmas only_intros =
  only_pbind only_pseq only_try_except only_try_except_only only_try_finally
  only_if only_case_prod only_ret only_raise_exn only_sys_exit
  only_log_info only_log_success only_log_warning only_log_error only_print
  only_path_exists only_getcwd only_chdir only_write_file only_read_file
  only_mkdir_exist_ok only_mkdir_parents only_rename only_shutil_move only_copy2
  only_unlink only_rmtree only_urlretrieve only_subprocess_run only_subprocess_run_check
  only_tar_extractall only_write_key_file only_make_temp_dir only_for_each

lemma nx_download_file: "only (\<lambda>e. \<not> is_extraction e) (download_file env u d r)"
  unfolding download_file_def Let_def
  by (intro only_intros) (simp_all add: is_extraction_def)

lemma nx_acquire_release: "only (\<lambda>e. \<not> is_extraction e) (acquire_release env v r)"
  unfolding acquire_release_def Let_def
  by (intro only_intros nx_download_file) (simp_all add: is_extraction_def)

lemma nx_validate_signature: "only (\<lambda>e. \<not> is_extraction e) (validate_signature env a s k)"
  unfolding validate_signature_def check_minisign_def verify_with_key_def Let_def
  by (intro only_intros) (simp_all add: is_extraction_def)

lemma nv_download_file: "only (\<lambda>e. \<not> is_validation e) (download_file env u d r)"
  unfolding download_file_def Let_def
  by (intro only_intros) (simp_all add: is_validation_def)

lemma nv_acquire_release: "only (\<lambda>e. \<not> is_validation e) (acquire_release env v r)"
  unfolding acquire_release_def Let_def
  by (intro only_intros nv_download_file) (simp_all add: is_validation_def)

lemma nv_extract_tar_gz: "only (\<lambda>e. \<not> is_validation e) (extract_tar_gz env a t)"
  unfolding extract_tar_gz_def Let_def
  by (intro only_intros) (simp_all add: is_validation_def)

lemma nv_extract_tar_xz: "only (\<lambda>e. \<not> is_validation e) (extract_tar_xz env a t)"
  unfolding extract_tar_xz_def Let_def
  by (intro only_intros) (simp_all add: is_validation_def)

lemma nv_extract_release: "only (\<lambda>e. \<not> is_validation e) (extract_release env v a)"
  unfolding extract_release_def Let_def
  by (intro only_intros nv_extract_tar_gz) (simp_all add: is_validation_def)

lemma nv_setup_zig: "only (\<lambda>e. \<not> is_validation e) (setup_zig env c v r)"
  unfolding setup_zig_def Let_def
  by (intro only_intros nv_download_file nv_extract_tar_xz) (simp_all add: is_validation_def)

lemma nv_build_ghostty: "only (\<lambda>e. \<not> is_validation e) (build_ghostty env g c)"
  unfolding build_ghostty_def Let_def
  by (intro only_intros) (simp_all add: is_validation_def)

lemma nv_install_desktop_file: "only (\<lambda>e. \<not> is_validation e) (install_desktop_file env g)"
  unfolding install_desktop_file_def install_app_desktop_file_def
    install_dolphin_desktop_file_def Let_def
  by (intro only_intros) (simp_all add: is_validation_def)

lemma nv_verify_build: "only (\<lambda>e. \<not> is_validation e) (verify_build env)"
  unfolding verify_build_def Let_def
  by (intro only_intros) (simp_all add: is_validation_def)

lemma nv_verify_local_build: "only (\<lambda>e. \<not> is_validation e) (verify_local_build env)"
  unfolding verify_local_build_def Let_def
  by (intro only_intros nv_verify_build) (simp_all add: is_validation_def)

lemma nv_build_and_install: "only (\<lambda>e. \<not> is_validation e) (build_and_install env a g)"
  unfolding build_and_install_def Let_def
  by (intro only_intros nv_setup_zig nv_build_ghostty nv_install_desktop_file
      nv_verify_local_build)
    (simp_all add: is_validation_def)

lemma new_events_append: "trace w' = trace w @ es \<Longrightarrow> new_events w w' = es"
  by (simp add: new_events_def)

lemma only_run:
  assumes "only P m" and "m w = (r, w1)"
  obtains es where "trace w1 = trace w @ es" and "list_all P es"
  using onlyD [OF assms(1), of w] assms(2) by auto

lemma list_all_not_filter: "list_all (\<lambda>e. \<not> P e) es \<Longrightarrow> filter P es = []"
  by (induction es) auto

lemma not_prefix_snoc [simp]: "\<not> prefix (p @ x # xs) p"
  by (auto simp: prefix_def)

subsection \<open>Directories stay\<close>

lemma keepsI: "(\<And>w. I w \<Longrightarrow> I (snd (m w))) \<Longrightarrow> keeps I m"
  by (simp add: keeps_def)

lemma keepsD: "keeps I m \<Longrightarrow> I w \<Longrightarrow> I (snd (m w))"
  by (simp add: keeps_def)

lemma keeps_ret: "keeps I (ret x)"
  by (simp add: keeps_def ret_def)

lemma keeps_raise_exn: "keeps I (raise_exn e)"
  by (simp add: keeps_def raise_exn_def)

lemma keeps_sys_exit: "keeps I (sys_exit n)"
  by (simp add: keeps_def sys_exit_def)

lemma keeps_pbind:
  assumes "keeps I m" and "\<And>x. keeps I (f x)"
  shows "keeps I (pbind m f)"
proof (rule keepsI)
  fix w assume "I w"
  obtain r w1 where mw: "m w = (r, w1)" by (cases "m w")
  with keepsD [OF assms(1) \<open>I w\<close>] have "I w1" by simp
  then show "I (snd (pbind m f w))"
    using mw keepsD [OF assms(2)] by (cases r) (auto simp: pbind_def)
qed

lemma keeps_pseq: "keeps I m \<Longrightarrow> keeps I k \<Longrightarrow> keeps I (pseq m k)"
  unfolding pseq_def by (rule keeps_pbind)

lemma keeps_try_except:
  assumes "keeps I m" and "\<And>e. keeps I (h e)"
  shows "keeps I (try_except m h)"
proof (rule keepsI)
  fix w assume "I w"
  obtain r w1 where mw: "m w = (r, w1)" by (cases "m w")
  with keepsD [OF assms(1) \<open>I w\<close>] have "I w1" by simp
  then show "I (snd (try_except m h w))"
    using mw keepsD [OF assms(2)] by (cases r) (auto simp: try_except_def)
qed

lemma keeps_try_except_only:
  assumes "keeps I m" and "keeps I h"
  shows "keeps I (try_except_only cs m h)"
proof (rule keepsI)
  fix w assume "I w"
  obtain r w1 where mw: "m w = (r, w1)" by (cases "m w")
  with keepsD [OF assms(1) \<open>I w\<close>] have "I w1" by simp
  then show "I (snd (try_except_only cs m h w))"
    using mw keepsD [OF assms(2)] by (cases r) (auto simp: try_except_only_def)
qed

lemma keeps_try_finally:
  assumes "keeps I m" and "keeps I fin"
  shows "keeps I (try_finally m fin)"
proof (rule keepsI)
  fix w assume "I w"
  obtain r w1 where mw: "m w = (r, w1)" by (cases "m w")
  with keepsD [OF assms(1) \<open>I w\<close>] have "I w1" by simp
  obtain r2 w2 where fw: "fin w1 = (r2, w2)" by (cases "fin w1")
  with keepsD [OF assms(2) \<open>I w1\<close>] have "I w2" by simp
  then show "I (snd (try_finally m fin w))"
    using mw fw by (cases r2) (auto simp: try_finally_def)
qed

lemma keeps_if: "(c \<Longrightarrow> keeps I a) \<Longrightarrow> (\<not> c \<Longrightarrow> keeps I b) \<Longrightarrow> keeps I (if c then a else b)"
  by simp

lemma keeps_case_prod: "(\<And>a b. keeps I (f a b)) \<Longrightarrow> keeps I (case_prod f x)"
  by (cases x) simp

lemma keeps_for_each: "(\<And>x. keeps I (f x)) \<Longrightarrow> keeps I (for_each f xs)"
  by (induction xs) (simp_all add: keeps_ret keeps_pseq)

lemma put_dir: "fs t = Some Dir \<Longrightarrow> put e fs t = Some Dir"
  by (auto simp: put_def)

lemma fold_put_dir: "fs t = Some Dir \<Longrightarrow> fold put ws fs t = Some Dir"
  by (induction ws arbitrary: fs) (simp_all add: put_dir)

lemma dir_log_info: "keeps (dir_at t c) (log_info s)"
  by (simp add: keeps_def dir_at_def log_info_def emit_def)

lemma dir_log_success: "keeps (dir_at t c) (log_success s)"
  by (simp add: keeps_def dir_at_def log_success_def emit_def)

lemma dir_log_warning: "keeps (dir_at t c) (log_warning s)"
  by (simp add: keeps_def dir_at_def log_warning_def emit_def)

lemma dir_log_error: "keeps (dir_at t c) (log_error s)"
  by (simp add: keeps_def dir_at_def log_error_def emit_def)

lemma dir_print: "keeps (dir_at t c) (print s)"
  by (simp add: keeps_def dir_at_def print_def emit_def)

lemma dir_path_exists: "keeps (dir_at t c) (path_exists p)"
  by (simp add: keeps_def dir_at_def path_exists_def)

lemma dir_getcwd: "keeps (dir_at t c) getcwd"
  by (simp add: keeps_def dir_at_def getcwd_def)

lemma dir_write_file: "keeps (dir_at t c) (write_file p s)"
  by (auto simp: keeps_def dir_at_def write_file_def)

lemma dir_read_file: "keeps (dir_at t c) (read_file p)"
  by (auto simp: keeps_def dir_at_def read_file_def split: option.splits node.splits)

lemma dir_mkdir_exist_ok: "keeps (dir_at t c) (mkdir_exist_ok p)"
  by (auto simp: keeps_def dir_at_def mkdir_exist_ok_def split: option.splits node.splits)

lemma dir_mkdir_parents: "keeps (dir_at t c) (mkdir_parents p)"
  by (auto simp: keeps_def dir_at_def mkdir_parents_def)

lemma dir_copy2: "keeps (dir_at t c) (copy2 p q)"
  by (auto simp: keeps_def dir_at_def copy2_def write_file_def split: option.splits node.splits)

lemma dir_unlink: "keeps (dir_at t c) (unlink p)"
  by (auto simp: keeps_def dir_at_def unlink_def emit_def Let_def
      split: option.splits node.splits)

lemma dir_rmtree: "\<not> prefix p t \<Longrightarrow> keeps (dir_at t c) (rmtree p)"
  by (auto simp: keeps_def dir_at_def rmtree_def emit_def Let_def
      split: option.splits node.splits)

lemma dir_rename: "\<not> prefix p t \<Longrightarrow> \<not> prefix q t \<Longrightarrow> keeps (dir_at t c) (rename p q)"
  by (auto simp: keeps_def dir_at_def rename_def move_tree_def
      split: option.splits node.splits)

lemma dir_shutil_move: "\<not> prefix p t \<Longrightarrow> \<not> prefix q t \<Longrightarrow> keeps (dir_at t c) (shutil_move p q)"
  by (auto simp: keeps_def dir_at_def shutil_move_def rename_def move_tree_def
      split: option.splits node.splits dest: append_prefixD)

lemma dir_urlretrieve: "keeps (dir_at t c) (urlretrieve env u d)"
  by (auto simp: keeps_def dir_at_def urlretrieve_def emit_def Let_def put_def
      split: fetch_result.splits option.splits)

lemma dir_subprocess_run: "keeps (dir_at t c) (subprocess_run env argv)"
  by (auto simp: keeps_def dir_at_def subprocess_run_def emit_def Let_def fold_put_dir
      split: proc_result.splits)

lemma dir_subprocess_run_check: "keeps (dir_at t c) (subprocess_run_check env argv)"
  unfolding subprocess_run_check_def
  by (intro keeps_pbind dir_subprocess_run keeps_case_prod keeps_if keeps_raise_exn keeps_ret)

lemma dir_write_key_file: "keeps (dir_at t c) (write_key_file env k)"
  by (auto simp: keeps_def dir_at_def write_key_file_def split: sum.splits option.splits)

lemmas keeps_intros =
  keeps_pbind keeps_pseq keeps_try_except keeps_try_except_only keeps_try_finally
  keeps_if keeps_case_prod keeps_ret keeps_raise_exn keeps_sys_exit keeps_for_each
  dir_log_info dir_log_success dir_log_warning dir_log_error dir_print dir_path_exists
  dir_getcwd dir_write_file dir_read_file dir_mkdir_exist_ok dir_mkdir_parents dir_copy2
  dir_unlink dir_urlretrieve dir_subprocess_run dir_subprocess_run_check dir_write_key_file

lemma dir_download_file: "keeps (dir_at t c) (download_file env u d r)"
  unfolding download_file_def Let_def by (intro keeps_intros)

lemma dir_install_desktop_file: "keeps (dir_at t c) (install_desktop_file env g)"
  unfolding install_desktop_file_def install_app_desktop_file_def
    install_dolphin_desktop_file_def Let_def
  by (intro keeps_intros)

lemma dir_extract_artifacts:
  "keeps (dir_at t c) (extract_artifacts_from_container env n v d)"
  unfolding extract_artifacts_from_container_def Let_def by (intro keeps_intros)

lemma dir_verify_build: "keeps (dir_at t c) (verify_build env)"
  unfolding verify_build_def Let_def by (intro keeps_intros)

lemma dir_acquire_release: "keeps (dir_at t c) (acquire_release env v r)"
  unfolding acquire_release_def Let_def by (intro keeps_intros dir_download_file)

lemma acquire_release_needs_cwd:
  "acquire_release env v r w = (Return x, w1) \<Longrightarrow> files w (cwd w) = Some Dir"
  by (auto simp: acquire_release_def prog_defs getcwd_def Let_def split: if_splits)

lemma acquire_release_cwd:
  assumes "acquire_release env v r w = (Return x, w1)"
  shows "files w1 (cwd w1) = Some Dir" and "cwd w1 = cwd w"
proof -
  have "dir_at (cwd w) (cwd w) w"
    using acquire_release_needs_cwd [OF assms] by (simp add: dir_at_def)
  from keepsD [OF dir_acquire_release this, of env v r] assms
  show "files w1 (cwd w1) = Some Dir" and "cwd w1 = cwd w"
    by (simp_all add: dir_at_def)
qed

lemma acquire_release_paths:
  "acquire_release env v r w = (Return (a, s), w1) \<Longrightarrow>
     a = cwd w @ [''ghostty-'' @ v @ ''.tar.gz'']"
  by (auto simp: acquire_release_def prog_defs getcwd_def Let_def
      split: if_splits prod.splits outcome.splits)

lemma extract_release_starts:
  assumes "files w (cwd w) = Some Dir"
  shows "Rmtree (cwd w @ [''ghostty-'' @ v]) \<in> set (new_events w (snd (extract_release env v a w)))
         \<or> Extractall a (cwd w) \<in> set (new_events w (snd (extract_release env v a w)))"
  using assms
  by (auto simp: extract_release_def extract_tar_gz_def tar_extractall_def rmtree_def
      getcwd_def prog_defs new_events_def Let_def
      split: option.splits node.splits)

lemma pbind_events_mono:
  assumes "only P m" and "\<And>x. only Q (f x)"
  shows "set (new_events w (snd (m w))) \<subseteq> set (new_events w (snd (pbind m f w)))"
proof -
  obtain r w1 where mw: "m w = (r, w1)" by (cases "m w")
  from only_run [OF assms(1) mw] obtain es1 where es1: "trace w1 = trace w @ es1" by blast
  show ?thesis
  proof (cases r)
    case (Return x)
    obtain r2 w2 where fw: "f x w1 = (r2, w2)" by (cases "f x w1")
    from only_run [OF assms(2) fw] obtain es2 where "trace w2 = trace w1 @ es2" by blast
    then show ?thesis using mw Return fw es1 by (simp add: pbind_def new_events_def)
  next
    case (Raise e)
    then show ?thesis using mw by (simp add: pbind_def)
  next
    case (Exit n)
    then show ?thesis using mw by (simp add: pbind_def)
  qed
qed

text \<open>
  C1. In the local build, once the release and its signature are downloaded: if
  \<^verbatim>\<open>--skip-signature\<close> was not given and \<^verbatim>\<open>validate_signature\<close> returns false, the process
  exits with status 1 and no extraction event (no tree removed, no archive unpacked) has
  happened; if \<^verbatim>\<open>--skip-signature\<close> was given, no \<^verbatim>\<open>minisign\<close> process is ever run, the
  warning is logged, no extraction event precedes it, and after it the extraction step
  begins: the stale tree is removed or the archive is unpacked.
\<close>

theorem signature_gate_decides_extraction:
  assumes acq: "acquire_release env (version a) (pull_always a) w = (Return (archive, sigfile), w1)"
    and loc: "\<not> uninstall a" "\<not> container a"
  shows "(\<not> skip_signature a
            \<and> fst (validate_signature env archive sigfile public_key w1) = Return False \<longrightarrow>
          fst (main env a w) = Exit 1
          \<and> filter is_extraction (new_events w (snd (main env a w))) = [])
       \<and> (skip_signature a \<longrightarrow>
          filter is_validation (new_events w (snd (main env a w))) = []
          \<and> (\<exists>es1 es2. new_events w (snd (main env a w))
                 = es1 @ Log Warning ''Skipping signature validation (not recommended)'' # es2
               \<and> filter is_extraction es1 = []
               \<and> (Rmtree (cwd w @ [''ghostty-'' @ version a]) \<in> set es2
                  \<or> Extractall archive (cwd w) \<in> set es2)))"
proof (intro conjI impI)
  from only_run [OF nx_acquire_release acq] obtain es1
    where es1: "trace w1 = trace w @ es1" "list_all (\<lambda>e. \<not> is_extraction e) es1" by blast
  from only_run [OF nv_acquire_release acq] es1(1)
  have es1v: "list_all (\<lambda>e. \<not> is_validation e) es1" by auto
  have main_eq: "main env a w = local_build env a w"
    using loc by (simp add: main_def)
  {
    assume H: "\<not> skip_signature a
      \<and> fst (validate_signature env archive sigfile public_key w1) = Return False"
    obtain w2 where val: "validate_signature env archive sigfile public_key w1 = (Return False, w2)"
      using H by (cases "validate_signature env archive sigfile public_key w1") auto
    from only_run [OF nx_validate_signature val] obtain es2
      where es2: "trace w2 = trace w1 @ es2" "list_all (\<lambda>e. \<not> is_extraction e) es2" by blast
    have res: "local_build env a w
        = (Exit 1, emit (Log Error ''Signature validation failed, aborting build'') w2)"
      using acq val H by (simp add: local_build_def signature_gate_def prog_defs)
    show "fst (main env a w) = Exit 1" by (simp add: main_eq res)
    have "new_events w (snd (main env a w))
        = es1 @ es2 @ [Log Error ''Signature validation failed, aborting build'']"
      by (simp add: main_eq res emit_def new_events_def es1 es2)
    then show "filter is_extraction (new_events w (snd (main env a w))) = []"
      using es1 es2 by (simp add: list_all_not_filter is_extraction_def)
  }
  {
    assume skip: "skip_signature a"
    define w2 where "w2 = emit (Log Warning ''Skipping signature validation (not recommended)'') w1"
    define rest where "rest = pbind (extract_release env (version a) archive)
                                (\<lambda>ghostty_dir. build_and_install env a ghostty_dir)"
    have res: "local_build env a w = rest w2"
      using acq skip by (simp add: local_build_def signature_gate_def prog_defs w2_def rest_def)
    have nv_rest: "only (\<lambda>e. \<not> is_validation e) rest"
      unfolding rest_def by (intro only_pbind nv_extract_release nv_build_and_install)
    obtain r3 w3 where rw: "rest w2 = (r3, w3)" by (cases "rest w2")
    from only_run [OF nv_rest rw] obtain es2
      where es2: "trace w3 = trace w2 @ es2" "list_all (\<lambda>e. \<not> is_validation e) es2" by blast
    have "trace w3
        = trace w @ es1 @ Log Warning ''Skipping signature validation (not recommended)'' # es2"
      using es1 es2 by (simp add: w2_def emit_def)
    then have tr: "new_events w (snd (main env a w))
        = es1 @ Log Warning ''Skipping signature validation (not recommended)'' # es2"
      by (simp add: main_eq res rw new_events_def)
    show "filter is_validation (new_events w (snd (main env a w))) = []"
      using es1v es2 by (simp add: tr list_all_not_filter is_validation_def)
    have cw2: "files w2 (cwd w2) = Some Dir" "cwd w2 = cwd w"
      using acquire_release_cwd [OF acq] by (simp_all add: w2_def emit_def)
    have "set (new_events w2 (snd (extract_release env (version a) archive w2)))
        \<subseteq> set (new_events w2 (snd (rest w2)))"
      unfolding rest_def by (rule pbind_events_mono [OF nv_extract_release nv_build_and_install])
    moreover have "new_events w2 (snd (rest w2)) = es2"
      by (simp add: rw es2 new_events_def)
    ultimately have "Rmtree (cwd w @ [''ghostty-'' @ version a]) \<in> set es2
        \<or> Extractall archive (cwd w) \<in> set es2"
      using extract_release_starts [OF cw2(1), of "version a" env archive] cw2(2) by auto
    then show "\<exists>es1 es2. new_events w (snd (main env a w))
                 = es1 @ Log Warning ''Skipping signature validation (not recommended)'' # es2
               \<and> filter is_extraction es1 = []
               \<and> (Rmtree (cwd w @ [''ghostty-'' @ version a]) \<in> set es2
                  \<or> Extractall archive (cwd w) \<in> set es2)"
      using tr list_all_not_filter [OF es1(2)] by blast
  }
qed

lemmas script_defs =
  download_file_def extract_tar_gz_def extract_tar_xz_def write_key_file_def verify_with_key_def
  check_minisign_def validate_signature_def setup_zig_def build_ghostty_def
  install_app_desktop_file_def install_dolphin_desktop_file_def install_desktop_file_def
  remove_item_def uninstall_summary_def uninstall_ghostty_def verify_build_def check_podman_def
  extract_artifacts_from_container_def make_temp_dir_def build_image_def
  extract_and_install_def remove_container_def create_argv_def create_and_extract_def
  remove_temp_dir_def container_install_def verify_container_build_def verify_local_build_def
  build_ghostty_container_def acquire_release_def signature_gate_def extract_release_def
  build_and_install_def local_build_def main_def installed_binary_def app_desktop_path_def
  dolphin_desktop_path_def

lemmas lib_defs =
  getcwd_def chdir_def write_file_def read_file_def unlink_def rmtree_def mkdir_exist_ok_def
  mkdir_parents_def move_tree_def rename_def shutil_move_def copy2_def put_def urlretrieve_def
  subprocess_run_def subprocess_run_check_def tar_extractall_def unpack_def str_path_def name_of_def

theorem signature_gate_decides_extraction_witness:
  "fst (acquire_release env_reject ''1'' False w0)
     = Return ([''w'', ''ghostty-1.tar.gz''], [''w'', ''ghostty-1.tar.gz.minisig''])
   \<and> fst (validate_signature env_reject [''w'', ''ghostty-1.tar.gz'']
            [''w'', ''ghostty-1.tar.gz.minisig''] public_key
            (snd (acquire_release env_reject ''1'' False w0))) = Return False
   \<and> fst (main env_reject args0 w0) = Exit 1
   \<and> filter is_extraction (new_events w0 (snd (main env_reject args0 w0))) = []
   \<and> filter is_validation
        (new_events w0 (snd (main env_reject (args0\<lparr>skip_signature := True\<rparr>) w0))) = []"
proof -
  have f: "fst (acquire_release env_reject ''1'' False w0)
      = Return ([''w'', ''ghostty-1.tar.gz''], [''w'', ''ghostty-1.tar.gz.minisig''])"
    by (simp add: acquire_release_def download_file_def prog_defs lib_defs
        env_reject_def env0_def w0_def Let_def)
  have acq: "acquire_release env_reject (version args0) (pull_always args0) w0
      = (Return ([''w'', ''ghostty-1.tar.gz''], [''w'', ''ghostty-1.tar.gz.minisig'']),
         snd (acquire_release env_reject ''1'' False w0))"
    by (simp add: args0_def prod_eq_iff f)
  have acq': "acquire_release env_reject (version (args0\<lparr>skip_signature := True\<rparr>))
         (pull_always (args0\<lparr>skip_signature := True\<rparr>)) w0
      = (Return ([''w'', ''ghostty-1.tar.gz''], [''w'', ''ghostty-1.tar.gz.minisig'']),
         snd (acquire_release env_reject ''1'' False w0))"
    using acq by (simp add: args0_def)
  have val: "fst (validate_signature env_reject [''w'', ''ghostty-1.tar.gz'']
            [''w'', ''ghostty-1.tar.gz.minisig''] public_key
            (snd (acquire_release env_reject ''1'' False w0))) = Return False"
    by (simp add: acquire_release_def download_file_def validate_signature_def
        check_minisign_def verify_with_key_def write_key_file_def prog_defs lib_defs
        env_reject_def env0_def w0_def Let_def)
  have a0: "\<not> uninstall args0" "\<not> container args0" "\<not> skip_signature args0"
    by (simp_all add: args0_def)
  have a1: "\<not> uninstall (args0\<lparr>skip_signature := True\<rparr>)"
    "\<not> container (args0\<lparr>skip_signature := True\<rparr>)"
    "skip_signature (args0\<lparr>skip_signature := True\<rparr>)"
    by (simp_all add: args0_def)
  show ?thesis
    using signature_gate_decides_extraction [OF acq a0(1,2)]
      signature_gate_decides_extraction [OF acq' a1(1,2)] a0(3) a1(3) val f
    by simp
qed

text \<open>
  C3. \<^verbatim>\<open>download_file\<close>: when the destination exists and the refresh flag is off, it returns
  normally, leaves the file system as it was and starts no transfer. Otherwise it starts
  exactly one transfer from the URL to the destination; when the transfer succeeds the
  call returns with the fetched bytes at the destination, and when the transfer fails in
  any way the process exits with status 1.
\<close>

theorem download_file_contract:
  "(files w destination \<noteq> None \<and> \<not> refresh \<longrightarrow>
      fst (download_file env url destination refresh w) = Return ()
      \<and> files (snd (download_file env url destination refresh w)) = files w
      \<and> filter is_transfer (new_events w (snd (download_file env url destination refresh w))) = [])
   \<and> (\<not> (files w destination \<noteq> None \<and> \<not> refresh) \<longrightarrow>
      filter is_transfer (new_events w (snd (download_file env url destination refresh w)))
        = [Urlretrieve url destination]
      \<and> (fst (urlretrieve env url destination w) = Return () \<longrightarrow>
           fst (download_file env url destination refresh w) = Return ()
           \<and> (\<exists>c. fetch env url = Fetched c
                  \<and> files (snd (download_file env url destination refresh w))
                      = (files w)(destination \<mapsto> File c)))
      \<and> (fst (urlretrieve env url destination w) \<noteq> Return () \<longrightarrow>
           fst (download_file env url destination refresh w) = Exit 1))"
  by (auto simp: download_file_def urlretrieve_def prog_defs new_events_def is_transfer_def
      Let_def split: fetch_result.splits option.splits)

theorem download_file_contract_witness:
  "files w0 [''w''] \<noteq> None
   \<and> fst (download_file env0 ''u'' [''w''] False w0) = Return ()
   \<and> files (snd (download_file env0 ''u'' [''w''] False w0)) = files w0
   \<and> files w0 [''w'', ''f''] = None
   \<and> fst (download_file env0 ''u'' [''w'', ''f''] False w0) = Return ()
   \<and> files (snd (download_file env0 ''u'' [''w'', ''f''] False w0)) [''w'', ''f'']
       = Some (File ''data'')
   \<and> fst (download_file (env0\<lparr>fetch := (\<lambda>_. Fetch_failed (Exn ''URLError'' ''down'') None)\<rparr>)
              ''u'' [''w'', ''f''] False w0) = Exit 1"
  using download_file_contract [of w0 "[''w'']" False env0 "''u''"]
    download_file_contract [of w0 "[''w'', ''f'']" False env0 "''u''"]
    download_file_contract [of w0 "[''w'', ''f'']" False
       "env0\<lparr>fetch := (\<lambda>_. Fetch_failed (Exn ''URLError'' ''down'') None)\<rparr>" "''u''"]
  by (simp add: env0_def w0_def urlretrieve_def emit_def)

lemma verify_with_key_no_exit: "fst (verify_with_key env archive key w) \<noteq> Exit n"
  by (auto simp: verify_with_key_def write_key_file_def subprocess_run_def unlink_def
      prog_defs Let_def
      split: sum.splits option.splits node.splits proc_result.splits if_splits)

text \<open>
  C10. Once \<^verbatim>\<open>minisign\<close> has been found (the first \<^verbatim>\<open>try\<close> block of \<^verbatim>\<open>validate_signature\<close>
  returned), \<^verbatim>\<open>validate_signature\<close> returns a boolean: it neither raises nor exits. If
  anything raises in its second \<^verbatim>\<open>try\<close> block (creating or writing the key file, running
  the verifier, removing the key file), it returns false, and the gate of the local build
  then exits with status 1 exactly as for a rejected signature.
\<close>

theorem validation_error_is_false:
  assumes "check_minisign env (snd (log_info ''Validating signature...'' w)) = (Return (), w1)"
  shows "(\<exists>b. fst (validate_signature env archive sigfile public_key w) = Return b)
       \<and> (\<forall>e. fst (verify_with_key env archive public_key w1) = Raise e \<longrightarrow>
              fst (validate_signature env archive sigfile public_key w) = Return False
              \<and> fst (signature_gate env False archive sigfile w) = Exit 1)"
proof -
  obtain r w2 where body: "verify_with_key env archive public_key w1 = (r, w2)"
    by (cases "verify_with_key env archive public_key w1")
  have "\<And>n. r \<noteq> Exit n"
    using verify_with_key_no_exit [of env archive public_key w1] body by simp
  then show ?thesis
    using assms body
    by (cases r) (auto simp: validate_signature_def signature_gate_def prog_defs)
qed

theorem validation_error_is_false_witness:
  "fst (check_minisign env_raise (snd (log_info ''Validating signature...'' w0))) = Return ()
   \<and> fst (verify_with_key env_raise [''w'', ''a''] public_key
            (snd (check_minisign env_raise (snd (log_info ''Validating signature...'' w0)))))
       = Raise (Exn ''UnicodeDecodeError'' ''invalid start byte'')
   \<and> fst (validate_signature env_raise [''w'', ''a''] [''w'', ''s''] public_key w0) = Return False
   \<and> fst (signature_gate env_raise False [''w'', ''a''] [''w'', ''s''] w0) = Exit 1"
proof -
  have c: "fst (check_minisign env_raise (snd (log_info ''Validating signature...'' w0)))
      = Return ()"
    by (simp add: check_minisign_def prog_defs lib_defs env_raise_def env0_def w0_def)
  have v: "fst (verify_with_key env_raise [''w'', ''a''] public_key
            (snd (check_minisign env_raise (snd (log_info ''Validating signature...'' w0)))))
       = Raise (Exn ''UnicodeDecodeError'' ''invalid start byte'')"
    by (simp add: check_minisign_def verify_with_key_def write_key_file_def prog_defs lib_defs
        env_raise_def env0_def w0_def)
  have h: "check_minisign env_raise (snd (log_info ''Validating signature...'' w0))
      = (Return (), snd (check_minisign env_raise (snd (log_info ''Validating signature...'' w0))))"
    by (simp add: prod_eq_iff c)
  show ?thesis
    using validation_error_is_false [OF h, of "[''w'', ''a'']" "[''w'', ''s'']"] c v by simp
qed

lemma fold_put_other: "\<forall>e \<in> set ws. fst e \<noteq> k \<Longrightarrow> fold put ws fs k = fs k"
  by (induction ws arbitrary: fs) (auto simp: put_def)

text \<open>The key file is removed whenever the verification run completes, whatever its
  return code.\<close>

lemma key_file_removed_when_run_completes:
  assumes "named_temporary_file env = Inr k" and "files w k = None" and "key_write env = None"
    and "run env [''minisign'', ''-V'', ''-p'', str_path k, ''-m'', str_path archive]
           = Completed rc out err"
    and "\<forall>e \<in> set (run_writes env
            [''minisign'', ''-V'', ''-p'', str_path k, ''-m'', str_path archive]). fst e \<noteq> k"
  shows "files (snd (verify_with_key env archive key w)) k = None"
proof -
  let ?ws = "run_writes env [''minisign'', ''-V'', ''-p'', str_path k, ''-m'', str_path archive]"
  have "\<And>fs. fold put ?ws fs k = fs k"
    using assms(5) by (rule fold_put_other)
  then show ?thesis
    using assms(1-4)
    by (auto simp: verify_with_key_def write_key_file_def subprocess_run_def unlink_def
        prog_defs Let_def split: node.splits option.splits)
qed

text \<open>
  C2. Every call of \<^verbatim>\<open>validate_signature\<close> that creates the key file should have removed
  it when the call returns. The script removes it inside the \<^verbatim>\<open>try\<close> block, after the
  verification run, and not in a \<^verbatim>\<open>finally\<close>: when \<^verbatim>\<open>subprocess.run\<close> raises, or when writing
  the key raises, the call returns false and the key file is still there.
\<close>

theorem key_file_left_behind:
  "files w0 [''tmp'', ''key.pub''] = None
   \<and> validate_signature env_raise [''w'', ''a''] [''w'', ''s''] public_key w0
       = (Return False, snd (validate_signature env_raise [''w'', ''a''] [''w'', ''s''] public_key w0))
   \<and> files (snd (validate_signature env_raise [''w'', ''a''] [''w'', ''s''] public_key w0))
        [''tmp'', ''key.pub''] = Some (File public_key)
   \<and> fst (validate_signature env_full [''w'', ''a''] [''w'', ''s''] public_key w0) = Return False
   \<and> files (snd (validate_signature env_full [''w'', ''a''] [''w'', ''s''] public_key w0))
        [''tmp'', ''key.pub''] = Some (File [])"
  by (simp add: validate_signature_def check_minisign_def verify_with_key_def write_key_file_def
      prog_defs lib_defs env_raise_def env_full_def env0_def w0_def prod_eq_iff)

subsection \<open>Uninstalling\<close>

lemma emit_fields [simp]:
  "files (emit e w) = files w" "cwd (emit e w) = cwd w" "trace (emit e w) = trace w @ [e]"
  by (simp_all add: emit_def)

lemma str_nat_small: "n < 10 \<Longrightarrow> str_nat n = [digit n]"
  by (simp add: str_nat.simps)

lemma artifacts_distinct:
  "installed_binary env \<noteq> app_desktop_path env"
  "installed_binary env \<noteq> dolphin_desktop_path env"
  "app_desktop_path env \<noteq> dolphin_desktop_path env"
  by (simp_all add: installed_binary_def app_desktop_path_def dolphin_desktop_path_def)

lemma removal_fails_iff: "removal_fails w p \<longleftrightarrow> files w p = Some Dir"
  by (auto simp: removal_fails_def unlink_def Let_def split: option.splits node.splits)

text \<open>One block of \<^verbatim>\<open>uninstall_ghostty\<close>: it always returns, touches the file system at its
  own path only, and extends each list by at most one entry.\<close>

lemma remove_item_effect:
  obtains items' w' es where
    "remove_item item what p items w = (Return items', w')"
    "files w' = (if is_file (files w) p then (files w)(p := None) else files w)"
    "trace w' = trace w @ es"
    "filter is_unlink es = (if files w p \<noteq> None then [Unlink p] else [])"
    "length (fst items') = length (fst items) + (if is_file (files w) p then 1 else 0)"
    "length (snd items') = length (snd items) + (if files w p = Some Dir then 1 else 0)"
proof (cases "files w p")
  case None
  then show ?thesis
    by (intro that [of items "emit (Log Info (item @ '' not found, skipping removal'')) w"
          "[Log Info (item @ '' not found, skipping removal'')]"])
      (simp_all add: remove_item_def prog_defs is_file_def is_unlink_def)
next
  case (Some n)
  show ?thesis
  proof (cases n)
    case (File c)
    with Some show ?thesis
      by (intro that [of "(fst items @ [item @ '': '' @ str_path p], snd items)"
            "emit (Log Success (''Removed '' @ what @ '': '' @ str_path p))
               ((emit (Unlink p) w)\<lparr>files := (files w)(p := None)\<rparr>)"
            "[Unlink p, Log Success (''Removed '' @ what @ '': '' @ str_path p)]"])
        (simp_all add: remove_item_def unlink_def prog_defs is_file_def is_unlink_def Let_def)
  next
    case Dir
    with Some show ?thesis
      by (intro that [of "(fst items,
              snd items @ [item @ '': '' @ str_path p @ '' ('' @ str_path p @ '')''])"
            "emit (Log Error (''Failed to remove '' @ what @ '' '' @ str_path p @ '': ''
                              @ str_path p)) (emit (Unlink p) w)"
            "[Unlink p, Log Error (''Failed to remove '' @ what @ '' '' @ str_path p @ '': ''
                              @ str_path p)]"])
        (simp_all add: remove_item_def unlink_def prog_defs is_file_def is_unlink_def Let_def)
  qed
qed

lemma for_each_log_info:
  "for_each (\<lambda>item. log_info (f item)) xs w
     = (Return (), w\<lparr>trace := trace w @ map (\<lambda>item. Log Info (f item)) xs\<rparr>)"
  by (induction xs arbitrary: w) (simp_all add: prog_defs)

lemma for_each_log_error:
  "for_each (\<lambda>item. log_error (f item)) xs w
     = (Return (), w\<lparr>trace := trace w @ map (\<lambda>item. Log Error (f item)) xs\<rparr>)"
  by (induction xs arbitrary: w) (simp_all add: prog_defs)

lemma uninstall_summary_effect:
  obtains w' es where
    "uninstall_summary removed failed w = (if failed \<noteq> [] then Exit 1 else Return (), w')"
    "files w' = files w"
    "trace w' = trace w @ es"
    "filter is_unlink es = []"
    "removed \<noteq> [] \<Longrightarrow>
       Log Success (''Successfully removed '' @ str_nat (length removed) @ '' items:'') \<in> set es"
    "failed \<noteq> [] \<Longrightarrow>
       Log Error (''Failed to remove '' @ str_nat (length failed) @ '' items:'') \<in> set es"
    "removed = [] \<Longrightarrow> failed = [] \<Longrightarrow> es = [Log Warning ''No Ghostty artifacts found to remove'']"
proof -
  define es where "es =
    (if removed \<noteq> [] then
       Log Success (''Successfully removed '' @ str_nat (length removed) @ '' items:'')
         # map (\<lambda>item. Log Info (''  - '' @ item)) removed
     else [])
    @ (if failed \<noteq> [] then
         Log Error (''Failed to remove '' @ str_nat (length failed) @ '' items:'')
           # map (\<lambda>item. Log Error (''  - '' @ item)) failed
       else if removed = [] then [Log Warning ''No Ghostty artifacts found to remove'']
       else [Log Success ''Ghostty uninstallation completed successfully''])"
  have run: "uninstall_summary removed failed w
      = (if failed \<noteq> [] then Exit 1 else Return (), w\<lparr>trace := trace w @ es\<rparr>)"
    by (simp add: uninstall_summary_def for_each_log_info for_each_log_error prog_defs es_def)
  have nu: "filter is_unlink es = []"
    by (auto simp: es_def is_unlink_def filter_empty_conv)
  show ?thesis
    by (rule that [OF run _ _ nu]) (simp_all add: es_def)
qed

text \<open>The whole of \<^verbatim>\<open>uninstall_ghostty\<close>, from the three blocks and the summary.\<close>

lemma uninstall_effect:
  obtains w' es where
    "uninstall_ghostty env w
       = (if \<exists>p \<in> set (artifacts env). files w p = Some Dir then Exit 1 else Return (), w')"
    "files w' = (\<lambda>q. if q \<in> set (artifacts env) \<and> is_file (files w) q then None else files w q)"
    "trace w' = trace w @ es"
    "filter is_unlink es = map Unlink (filter (\<lambda>p. files w p \<noteq> None) (artifacts env))"
    "0 < length (filter (is_file (files w)) (artifacts env)) \<Longrightarrow>
       Log Success (''Successfully removed ''
                    @ str_nat (length (filter (is_file (files w)) (artifacts env)))
                    @ '' items:'') \<in> set es"
    "0 < length (filter (removal_fails w) (artifacts env)) \<Longrightarrow>
       Log Error (''Failed to remove ''
                  @ str_nat (length (filter (removal_fails w) (artifacts env)))
                  @ '' items:'') \<in> set es"
    "\<forall>p \<in> set (artifacts env). files w p = None \<Longrightarrow>
       es = [Log Info ''Uninstalling Ghostty...'',
             Log Info ''Binary not found, skipping removal'',
             Log Info ''Application desktop file not found, skipping removal'',
             Log Info ''Dolphin service menu not found, skipping removal'',
             Log Warning ''No Ghostty artifacts found to remove'']"
proof -
  let ?b = "installed_binary env" and ?a = "app_desktop_path env" and ?d = "dolphin_desktop_path env"
  define u0 where "u0 = emit (Log Info ''Uninstalling Ghostty...'') w"
  obtain i1 u1 e1 where s1:
    "remove_item ''Binary'' ''binary'' ?b ([], []) u0 = (Return i1, u1)"
    "files u1 = (if is_file (files u0) ?b then (files u0)(?b := None) else files u0)"
    "trace u1 = trace u0 @ e1"
    "filter is_unlink e1 = (if files u0 ?b \<noteq> None then [Unlink ?b] else [])"
    "length (fst i1) = length (fst ([]::string list, []::string list))
        + (if is_file (files u0) ?b then 1 else 0)"
    "length (snd i1) = length (snd ([]::string list, []::string list))
        + (if files u0 ?b = Some Dir then 1 else 0)"
    by (rule remove_item_effect)
  obtain i2 u2 e2 where s2:
    "remove_item ''Application desktop file'' ''application desktop file'' ?a i1 u1
       = (Return i2, u2)"
    "files u2 = (if is_file (files u1) ?a then (files u1)(?a := None) else files u1)"
    "trace u2 = trace u1 @ e2"
    "filter is_unlink e2 = (if files u1 ?a \<noteq> None then [Unlink ?a] else [])"
    "length (fst i2) = length (fst i1) + (if is_file (files u1) ?a then 1 else 0)"
    "length (snd i2) = length (snd i1) + (if files u1 ?a = Some Dir then 1 else 0)"
    by (rule remove_item_effect)
  obtain i3 u3 e3 where s3:
    "remove_item ''Dolphin service menu'' ''Dolphin service menu'' ?d i2 u2 = (Return i3, u3)"
    "files u3 = (if is_file (files u2) ?d then (files u2)(?d := None) else files u2)"
    "trace u3 = trace u2 @ e3"
    "filter is_unlink e3 = (if files u2 ?d \<noteq> None then [Unlink ?d] else [])"
    "length (fst i3) = length (fst i2) + (if is_file (files u2) ?d then 1 else 0)"
    "length (snd i3) = length (snd i2) + (if files u2 ?d = Some Dir then 1 else 0)"
    by (rule remove_item_effect)
  obtain u4 e4 where s4:
    "uninstall_summary (fst i3) (snd i3) u3 = (if snd i3 \<noteq> [] then Exit 1 else Return (), u4)"
    "files u4 = files u3"
    "trace u4 = trace u3 @ e4"
    "filter is_unlink e4 = []"
    "fst i3 \<noteq> [] \<Longrightarrow>
       Log Success (''Successfully removed '' @ str_nat (length (fst i3)) @ '' items:'') \<in> set e4"
    "snd i3 \<noteq> [] \<Longrightarrow>
       Log Error (''Failed to remove '' @ str_nat (length (snd i3)) @ '' items:'') \<in> set e4"
    "fst i3 = [] \<Longrightarrow> snd i3 = [] \<Longrightarrow> e4 = [Log Warning ''No Ghostty artifacts found to remove'']"
    by (rule uninstall_summary_effect [of "fst i3" "snd i3" u3]) blast
  note d = artifacts_distinct [of env] artifacts_distinct [of env, symmetric]
  have f1: "files u1 ?a = files w ?a" "files u1 ?d = files w ?d"
    using d by (simp_all add: s1 u0_def)
  have f2: "files u2 ?d = files w ?d"
    using d by (simp add: s2 f1)
  have f0: "files u0 = files w" by (simp add: u0_def)
  have g: "is_file (files u1) ?a = is_file (files w) ?a"
    "is_file (files u2) ?d = is_file (files w) ?d"
    by (simp_all add: is_file_def f1 f2)
  have run: "uninstall_ghostty env w = (if snd i3 \<noteq> [] then Exit 1 else Return (), u4)"
    using s1(1) s2(1) s3(1) s4(1)
    by (simp add: uninstall_ghostty_def pseq_def pbind_def log_info_def u0_def split_beta)
  have nfail: "length (snd i3) = length (filter (removal_fails w) (artifacts env))"
    by (simp add: s1(6) s2(6) s3(6) f0 f1 f2 artifacts_def removal_fails_iff)
  have nrem: "length (fst i3) = length (filter (is_file (files w)) (artifacts env))"
    by (simp add: s1(5) s2(5) s3(5) f0 g artifacts_def)
  have ex: "snd i3 \<noteq> [] \<longleftrightarrow> (\<exists>p \<in> set (artifacts env). files w p = Some Dir)"
  proof -
    have "snd i3 \<noteq> [] \<longleftrightarrow> 0 < length (filter (removal_fails w) (artifacts env))"
      using nfail by (metis length_greater_0_conv)
    then show ?thesis
      by (auto simp: filter_empty_conv removal_fails_iff)
  qed
  have fs: "files u4
      = (\<lambda>q. if q \<in> set (artifacts env) \<and> is_file (files w) q then None else files w q)"
    using d by (auto simp: s1 s2 s3 s4 f0 artifacts_def is_file_def fun_eq_iff
        split: option.splits node.splits)
  have tr: "trace u4 = trace w @ (Log Info ''Uninstalling Ghostty...'' # e1 @ e2 @ e3 @ e4)"
    by (simp add: s1(3) s2(3) s3(3) s4(3) u0_def)
  have un: "filter is_unlink (Log Info ''Uninstalling Ghostty...'' # e1 @ e2 @ e3 @ e4)
      = map Unlink (filter (\<lambda>p. files w p \<noteq> None) (artifacts env))"
    by (simp add: s1(4) s2(4) s3(4) s4(4) f0 f1 f2 artifacts_def is_unlink_def)
  show ?thesis
  proof (rule that [OF _ fs tr un])
    show "uninstall_ghostty env w
       = (if \<exists>p \<in> set (artifacts env). files w p = Some Dir then Exit 1 else Return (), u4)"
      using run ex by simp
    show "Log Success (''Successfully removed ''
                    @ str_nat (length (filter (is_file (files w)) (artifacts env)))
                    @ '' items:'') \<in> set (Log Info ''Uninstalling Ghostty...'' # e1 @ e2 @ e3 @ e4)"
      if "0 < length (filter (is_file (files w)) (artifacts env))"
    proof -
      from that nrem have "fst i3 \<noteq> []" by auto
      then have "Log Success (''Successfully removed '' @ str_nat (length (fst i3))
                              @ '' items:'') \<in> set e4"
        by (rule s4(5))
      then show ?thesis by (simp add: nrem)
    qed
    show "Log Error (''Failed to remove ''
                  @ str_nat (length (filter (removal_fails w) (artifacts env)))
                  @ '' items:'') \<in> set (Log Info ''Uninstalling Ghostty...'' # e1 @ e2 @ e3 @ e4)"
      if "0 < length (filter (removal_fails w) (artifacts env))"
    proof -
      from that nfail have "snd i3 \<noteq> []" by auto
      then have "Log Error (''Failed to remove '' @ str_nat (length (snd i3))
                            @ '' items:'') \<in> set e4"
        by (rule s4(6))
      then show ?thesis by (simp add: nfail)
    qed
    show "Log Info ''Uninstalling Ghostty...'' # e1 @ e2 @ e3 @ e4 =
            [Log Info ''Uninstalling Ghostty...'',
             Log Info ''Binary not found, skipping removal'',
             Log Info ''Application desktop file not found, skipping removal'',
             Log Info ''Dolphin service menu not found, skipping removal'',
             Log Warning ''No Ghostty artifacts found to remove'']"
      if none: "\<forall>p \<in> set (artifacts env). files w p = None"
    proof -
      from none have n: "files w ?b = None" "files w ?a = None" "files w ?d = None"
        by (simp_all add: artifacts_def)
      have "fst i3 = []" "snd i3 = []"
        using nrem nfail n by (simp_all add: artifacts_def is_file_def removal_fails_iff)
      then have e4: "e4 = [Log Warning ''No Ghostty artifacts found to remove'']"
        by (rule s4(7))
      have r1: "remove_item ''Binary'' ''binary'' ?b ([], []) u0
          = (Return ([], []), emit (Log Info ''Binary not found, skipping removal'') u0)"
        using n by (simp add: remove_item_def prog_defs u0_def)
      then have u1: "u1 = emit (Log Info ''Binary not found, skipping removal'') u0"
        and i1: "i1 = ([], [])"
        using s1(1) by simp_all
      have "files u1 ?a = None" using n f1 by simp
      then have r2: "remove_item ''Application desktop file'' ''application desktop file'' ?a i1 u1
          = (Return i1, emit (Log Info ''Application desktop file not found, skipping removal'') u1)"
        by (simp add: remove_item_def prog_defs)
      then have u2: "u2 = emit (Log Info ''Application desktop file not found, skipping removal'') u1"
        using s2(1) by simp
      have "files u2 ?d = None" using n f2 by simp
      then have r3: "remove_item ''Dolphin service menu'' ''Dolphin service menu'' ?d i2 u2
          = (Return i2, emit (Log Info ''Dolphin service menu not found, skipping removal'') u2)"
        by (simp add: remove_item_def prog_defs)
      then have u3: "u3 = emit (Log Info ''Dolphin service menu not found, skipping removal'') u2"
        using s3(1) by simp
      have "e1 = [Log Info ''Binary not found, skipping removal'']"
        using s1(3) by (simp add: u1)
      moreover have "e2 = [Log Info ''Application desktop file not found, skipping removal'']"
        using s2(3) by (simp add: u2)
      moreover have "e3 = [Log Info ''Dolphin service menu not found, skipping removal'']"
        using s3(3) by (simp add: u3)
      ultimately show ?thesis using e4 by simp
    qed
  qed
qed

text \<open>
  C4. \<^verbatim>\<open>uninstall_ghostty\<close> exits with status 1 if and only if the removal of one of the three
  artifacts failed; in every other case it returns normally (exit status 0). When none of
  the three artifacts exists, it returns normally and its last word is the warning that
  nothing was found.
\<close>

theorem uninstall_exit_status:
  "(fst (uninstall_ghostty env w) = Exit 1 \<longleftrightarrow> (\<exists>p \<in> set (artifacts env). removal_fails w p))
   \<and> (fst (uninstall_ghostty env w) \<noteq> Exit 1 \<longrightarrow> fst (uninstall_ghostty env w) = Return ())
   \<and> ((\<forall>p \<in> set (artifacts env). files w p = None) \<longrightarrow>
        fst (uninstall_ghostty env w) = Return ()
        \<and> new_events w (snd (uninstall_ghostty env w)) =
            [Log Info ''Uninstalling Ghostty...'',
             Log Info ''Binary not found, skipping removal'',
             Log Info ''Application desktop file not found, skipping removal'',
             Log Info ''Dolphin service menu not found, skipping removal'',
             Log Warning ''No Ghostty artifacts found to remove''])"
proof -
  obtain w' es where u:
    "uninstall_ghostty env w
       = (if \<exists>p \<in> set (artifacts env). files w p = Some Dir then Exit 1 else Return (), w')"
    "trace w' = trace w @ es"
    "\<forall>p \<in> set (artifacts env). files w p = None \<Longrightarrow>
       es = [Log Info ''Uninstalling Ghostty...'',
             Log Info ''Binary not found, skipping removal'',
             Log Info ''Application desktop file not found, skipping removal'',
             Log Info ''Dolphin service menu not found, skipping removal'',
             Log Warning ''No Ghostty artifacts found to remove'']"
    by (rule uninstall_effect [of env w]) blast
  have ne: "new_events w (snd (uninstall_ghostty env w)) = es"
    by (simp add: u(1,2) new_events_def)
  show ?thesis
  proof (intro conjI impI)
    show "fst (uninstall_ghostty env w) = Exit 1 \<longleftrightarrow> (\<exists>p \<in> set (artifacts env). removal_fails w p)"
      by (simp add: u(1) removal_fails_iff)
    show "fst (uninstall_ghostty env w) = Return ()" if "fst (uninstall_ghostty env w) \<noteq> Exit 1"
      using that by (simp add: u(1) split: if_splits)
    assume none: "\<forall>p \<in> set (artifacts env). files w p = None"
    then show "fst (uninstall_ghostty env w) = Return ()"
      by (simp add: u(1))
    show "new_events w (snd (uninstall_ghostty env w)) =
            [Log Info ''Uninstalling Ghostty...'',
             Log Info ''Binary not found, skipping removal'',
             Log Info ''Application desktop file not found, skipping removal'',
             Log Info ''Dolphin service menu not found, skipping removal'',
             Log Warning ''No Ghostty artifacts found to remove'']"
      using u(3) [OF none] ne by simp
  qed
qed

theorem uninstall_exit_status_witness:
  "files w0 (installed_binary env0) = None \<and> files w0 (app_desktop_path env0) = None
   \<and> files w0 (dolphin_desktop_path env0) = None
   \<and> fst (uninstall_ghostty env0 w0) = Return ()
   \<and> removal_fails w_mixed (installed_binary env0)
   \<and> fst (uninstall_ghostty env0 w_mixed) = Exit 1"
proof -
  have none: "\<forall>p \<in> set (artifacts env0). files w0 p = None"
    by (simp add: artifacts_def installed_binary_def app_desktop_path_def dolphin_desktop_path_def
        env0_def w0_def)
  have fails: "removal_fails w_mixed (installed_binary env0)"
    by (simp add: removal_fails_iff installed_binary_def env0_def w_mixed_def)
  have "installed_binary env0 \<in> set (artifacts env0)"
    by (simp add: artifacts_def)
  with fails have ex: "\<exists>p \<in> set (artifacts env0). removal_fails w_mixed p"
    by blast
  from uninstall_exit_status [of env0 w0] none
  have "fst (uninstall_ghostty env0 w0) = Return ()" by blast
  moreover from uninstall_exit_status [of env0 w_mixed] ex
  have "fst (uninstall_ghostty env0 w_mixed) = Exit 1" by blast
  ultimately show ?thesis using none fails by (simp add: artifacts_def)
qed

text \<open>
  C6. Whatever subset of the three artifacts is present, \<^verbatim>\<open>uninstall_ghostty\<close> calls
  \<^verbatim>\<open>unlink\<close> on exactly the present ones, each once and in order, whether or not an earlier
  removal failed. Afterwards every artifact that was a regular file is gone and every
  other path is as it was. The summary counts the removals that succeeded and, separately,
  those that failed.
\<close>

theorem uninstall_removes_present:
  "filter is_unlink (new_events w (snd (uninstall_ghostty env w)))
     = map Unlink (filter (\<lambda>p. files w p \<noteq> None) (artifacts env))
   \<and> files (snd (uninstall_ghostty env w))
       = (\<lambda>q. if q \<in> set (artifacts env) \<and> is_file (files w) q then None else files w q)
   \<and> (0 < length (filter (is_file (files w)) (artifacts env)) \<longrightarrow>
       Log Success (''Successfully removed ''
                    @ str_nat (length (filter (is_file (files w)) (artifacts env)))
                    @ '' items:'') \<in> set (new_events w (snd (uninstall_ghostty env w))))
   \<and> (0 < length (filter (removal_fails w) (artifacts env)) \<longrightarrow>
       Log Error (''Failed to remove ''
                  @ str_nat (length (filter (removal_fails w) (artifacts env)))
                  @ '' items:'') \<in> set (new_events w (snd (uninstall_ghostty env w))))"
proof -
  obtain w' es where u:
    "uninstall_ghostty env w
       = (if \<exists>p \<in> set (artifacts env). files w p = Some Dir then Exit 1 else Return (), w')"
    "files w' = (\<lambda>q. if q \<in> set (artifacts env) \<and> is_file (files w) q then None else files w q)"
    "trace w' = trace w @ es"
    "filter is_unlink es = map Unlink (filter (\<lambda>p. files w p \<noteq> None) (artifacts env))"
    "0 < length (filter (is_file (files w)) (artifacts env)) \<Longrightarrow>
       Log Success (''Successfully removed ''
                    @ str_nat (length (filter (is_file (files w)) (artifacts env)))
                    @ '' items:'') \<in> set es"
    "0 < length (filter (removal_fails w) (artifacts env)) \<Longrightarrow>
       Log Error (''Failed to remove ''
                  @ str_nat (length (filter (removal_fails w) (artifacts env)))
                  @ '' items:'') \<in> set es"
    by (rule uninstall_effect [of env w]) blast
  have sw: "snd (uninstall_ghostty env w) = w'"
    by (simp add: u(1))
  have ne: "new_events w w' = es"
    by (simp add: u(3) new_events_def)
  show ?thesis
    unfolding sw ne using u(2,4,5,6) by blast
qed

theorem uninstall_removes_present_witness:
  "filter is_unlink (new_events w_mixed (snd (uninstall_ghostty env0 w_mixed)))
     = [Unlink [''h'', ''.local'', ''bin'', ''ghostty''],
        Unlink [''h'', ''.local'', ''share'', ''applications'', ''ghostty.desktop''],
        Unlink [''h'', ''.local'', ''share'', ''kio'', ''servicemenus'',
                ''com.mitchellh.ghostty.desktop'']]
   \<and> files (snd (uninstall_ghostty env0 w_mixed))
        [''h'', ''.local'', ''share'', ''applications'', ''ghostty.desktop''] = None
   \<and> files (snd (uninstall_ghostty env0 w_mixed)) [''h'', ''.local'', ''bin'', ''ghostty'']
       = Some Dir
   \<and> Log Success ''Successfully removed 2 items:''
       \<in> set (new_events w_mixed (snd (uninstall_ghostty env0 w_mixed)))
   \<and> Log Error ''Failed to remove 1 items:''
       \<in> set (new_events w_mixed (snd (uninstall_ghostty env0 w_mixed)))"
proof -
  have a: "artifacts env0 = [[''h'', ''.local'', ''bin'', ''ghostty''],
        [''h'', ''.local'', ''share'', ''applications'', ''ghostty.desktop''],
        [''h'', ''.local'', ''share'', ''kio'', ''servicemenus'', ''com.mitchellh.ghostty.desktop'']]"
    by (simp add: artifacts_def installed_binary_def app_desktop_path_def dolphin_desktop_path_def
        env0_def)
  have p: "filter (\<lambda>p. files w_mixed p \<noteq> None) (artifacts env0) = artifacts env0"
    by (simp add: a w_mixed_def)
  have n: "length (filter (is_file (files w_mixed)) (artifacts env0)) = 2"
    by (simp add: a w_mixed_def is_file_def)
  have m: "length (filter (removal_fails w_mixed) (artifacts env0)) = 1"
    by (simp add: a w_mixed_def removal_fails_iff)
  have "digit 2 = CHR ''2''" "digit 1 = CHR ''1''"
    unfolding digit_def by code_simp+
  then have s: "str_nat 2 = ''2''" "str_nat 1 = ''1''"
    by (simp_all add: str_nat_small)
  note t = uninstall_removes_present [of w_mixed env0, unfolded p n m s]
  have f: "files (snd (uninstall_ghostty env0 w_mixed))
        [''h'', ''.local'', ''share'', ''applications'', ''ghostty.desktop''] = None"
    "files (snd (uninstall_ghostty env0 w_mixed)) [''h'', ''.local'', ''bin'', ''ghostty'']
       = Some Dir"
    using t by (simp_all add: a is_file_def w_mixed_def)
  show ?thesis
    using t f by (simp add: a)
qed

subsection \<open>The scoped change of directory\<close>

text \<open>The \<^verbatim>\<open>try\<close> ... \<^verbatim>\<open>finally\<close> of \<^verbatim>\<open>build_ghostty\<close>, entered in the source directory \<open>g\<close>
  while the directory \<open>c\<close> to return to exists.\<close>

lemma build_in_dir:
  fixes env :: env and argv :: "string list" and c :: path
  assumes "files w c = Some Dir" and "cwd w = g"
  defines "body \<equiv> try_finally
          (pbind (subprocess_run env argv) (\<lambda>(returncode, stdout, stderr).
           if returncode \<noteq> 0 then
             pseq (log_error ''Build failed!'')
            (pseq (log_error stderr)
               (sys_exit 1))
           else log_success ''Build completed successfully''))
          (chdir c)"
  shows "cwd (snd (body w)) = c"
    and "\<exists>es. trace (snd (body w)) = trace w @ Run argv g # es \<and> (\<forall>a d. Run a d \<notin> set es)"
    and "run env argv = Completed rc out err \<Longrightarrow> rc \<noteq> 0 \<Longrightarrow> fst (body w) = Exit 1"
proof -
  have d: "fold put (run_writes env argv) (files w) c = Some Dir"
    using assms(1) by (rule fold_put_dir)
  show "cwd (snd (body w)) = c"
    using d assms(2)
    by (cases "run env argv")
      (simp_all add: body_def subprocess_run_def chdir_def prog_defs Let_def)
  show "\<exists>es. trace (snd (body w)) = trace w @ Run argv g # es \<and> (\<forall>a d. Run a d \<notin> set es)"
    using d assms(2)
    by (cases "run env argv")
      (simp_all add: body_def subprocess_run_def chdir_def prog_defs Let_def)
  show "fst (body w) = Exit 1" if "run env argv = Completed rc out err" "rc \<noteq> 0"
    using d assms(2) that
    by (simp add: body_def subprocess_run_def chdir_def prog_defs Let_def)
qed


text \<open>
  C7. \<^verbatim>\<open>build_ghostty\<close> leaves the working directory of the process as it found it, however
  it ends: by returning, by an exception, or by \<^verbatim>\<open>sys.exit(1)\<close> after a build that failed. The
  only child process it starts is the toolchain, and that child runs in the source
  directory; it is started whenever both directories exist. A build that returns a
  non-zero code ends the process with status 1.
\<close>

theorem build_ghostty_restores_cwd:
  "cwd (snd (build_ghostty env ghostty_dir compiler_dir w)) = cwd w
   \<and> (\<forall>argv d. Run argv d \<in> set (new_events w (snd (build_ghostty env ghostty_dir compiler_dir w)))
         \<longrightarrow> argv = zig_argv env \<and> d = ghostty_dir)
   \<and> (files w (cwd w) = Some Dir \<and> files w ghostty_dir = Some Dir \<longrightarrow>
        Run (zig_argv env) ghostty_dir
          \<in> set (new_events w (snd (build_ghostty env ghostty_dir compiler_dir w)))
        \<and> (\<forall>rc out err. run env (zig_argv env) = Completed rc out err \<and> rc \<noteq> 0 \<longrightarrow>
              fst (build_ghostty env ghostty_dir compiler_dir w) = Exit 1))"
proof (cases "files w (cwd w) = Some Dir \<and> files w ghostty_dir = Some Dir")
  case False
  then have "\<exists>e. build_ghostty env ghostty_dir compiler_dir w
      = (Raise e, emit (Log Info ''Building Ghostty...'') w)"
    by (auto simp: build_ghostty_def getcwd_def chdir_def prog_defs
        split: option.splits node.splits)
  then show ?thesis
    using False by (auto simp: new_events_def)
next
  case True
  define w1 where "w1 = (emit (Log Info ''Building Ghostty...'') w)\<lparr>cwd := ghostty_dir\<rparr>"
  define body where "body = try_finally
          (pbind (subprocess_run env (zig_argv env)) (\<lambda>(returncode, stdout, stderr).
           if returncode \<noteq> 0 then
             pseq (log_error ''Build failed!'')
            (pseq (log_error stderr)
               (sys_exit 1))
           else log_success ''Build completed successfully''))
          (chdir (cwd w))"
  have run: "build_ghostty env ghostty_dir compiler_dir w = body w1"
    using True
    by (simp add: build_ghostty_def getcwd_def chdir_def pseq_def pbind_def log_info_def
        w1_def body_def zig_argv_def)
  have p: "files w1 (cwd w) = Some Dir" "cwd w1 = ghostty_dir"
    "trace w1 = trace w @ [Log Info ''Building Ghostty...'']"
    using True by (simp_all add: w1_def)
  from build_in_dir(2) [OF p(1,2), of env "zig_argv env"] obtain es
    where es: "trace (snd (body w1)) = trace w1 @ Run (zig_argv env) ghostty_dir # es"
      "\<forall>a d. Run a d \<notin> set es"
    unfolding body_def by blast
  have ne: "new_events w (snd (build_ghostty env ghostty_dir compiler_dir w))
      = Log Info ''Building Ghostty...'' # Run (zig_argv env) ghostty_dir # es"
    by (simp add: run es p(3) new_events_def)
  have c: "cwd (snd (build_ghostty env ghostty_dir compiler_dir w)) = cwd w"
    unfolding run body_def by (rule build_in_dir(1) [OF p(1,2)])
  have x: "fst (build_ghostty env ghostty_dir compiler_dir w) = Exit 1"
    if "run env (zig_argv env) = Completed rc out err" "rc \<noteq> 0" for rc out err
    unfolding run body_def by (rule build_in_dir(3) [OF p(1,2) that])
  show ?thesis
    unfolding ne using c x es(2) by auto
qed

theorem build_ghostty_restores_cwd_witness:
  "files w_src (cwd w_src) = Some Dir \<and> files w_src [''w'', ''ghostty-1''] = Some Dir
   \<and> run env_zig_fails (zig_argv env_zig_fails) = Completed 1 [] ''error: build failed''
   \<and> fst (build_ghostty env_zig_fails [''w'', ''ghostty-1''] [''w'', ''compiler''] w_src) = Exit 1
   \<and> cwd (snd (build_ghostty env_zig_fails [''w'', ''ghostty-1''] [''w'', ''compiler''] w_src))
       = [''w'']
   \<and> Run (zig_argv env_zig_fails) [''w'', ''ghostty-1'']
       \<in> set (new_events w_src
            (snd (build_ghostty env_zig_fails [''w'', ''ghostty-1''] [''w'', ''compiler''] w_src)))"
proof -
  have d: "files w_src (cwd w_src) = Some Dir \<and> files w_src [''w'', ''ghostty-1''] = Some Dir"
    by (simp add: w_src_def w0_def)
  have r: "run env_zig_fails (zig_argv env_zig_fails) = Completed 1 [] ''error: build failed''"
    by (simp add: env_zig_fails_def env0_def)
  have c: "cwd w_src = [''w'']"
    by (simp add: w_src_def w0_def)
  from build_ghostty_restores_cwd
    [of env_zig_fails "[''w'', ''ghostty-1'']" "[''w'', ''compiler'']" w_src] d r c
  show ?thesis by auto
qed

subsection \<open>A clean tree for the release\<close>

lemma unpack_cong: "fs q = fs' q \<Longrightarrow> unpack base ms fs q = unpack base ms fs' q"
proof (induction ms arbitrary: fs fs')
  case Nil
  then show ?case by (simp add: unpack_def)
next
  case (Cons m ms)
  obtain rel n where m: "m = (rel, n)" by (cases m)
  have "(fs(base @ rel \<mapsto> n)) q = (fs'(base @ rel \<mapsto> n)) q"
    using Cons.prems by simp
  then have "unpack base ms (fs(base @ rel \<mapsto> n)) q = unpack base ms (fs'(base @ rel \<mapsto> n)) q"
    by (rule Cons.IH [of "fs(base @ rel \<mapsto> n)" "fs'(base @ rel \<mapsto> n)"])
  then show ?case
    by (simp add: unpack_def m)
qed

lemma pbind_Return:
  "pbind m f w = (Return y, w') \<Longrightarrow> \<exists>x w1. m w = (Return x, w1) \<and> f x w1 = (Return y, w')"
  by (auto simp: pbind_def split: prod.splits outcome.splits)

lemma pseq_Return:
  "pseq m k w = (Return y, w') \<Longrightarrow> \<exists>x w1. m w = (Return x, w1) \<and> k w1 = (Return y, w')"
  unfolding pseq_def by (rule pbind_Return)

lemma pseq_ret_Return:
  "pseq m (ret g) w = (Return r, w') \<Longrightarrow> r = g \<and> m w = (Return (), w')"
  by (auto simp: ret_def dest!: pseq_Return)

lemma extract_tar_gz_Return:
  assumes "extract_tar_gz env a t w = (Return x, w')"
  obtains c where "files w a = Some (File c)" "snd (tar_open env ''r:gz'' c) = None"
    "w' = (emit (Log Success (''Extracted '' @ name_of a))
             (emit (Extractall a t)
                (emit (Log Info (''Extracting '' @ name_of a @ '' to '' @ str_path t)) w)))
            \<lparr>files := unpack t (fst (tar_open env ''r:gz'' c)) (files w)\<rparr>"
proof (cases "files w a")
  case None
  with assms show ?thesis
    by (simp add: extract_tar_gz_def tar_extractall_def prog_defs Let_def)
next
  case (Some n)
  show ?thesis
  proof (cases n)
    case Dir
    with Some assms show ?thesis
      by (simp add: extract_tar_gz_def tar_extractall_def prog_defs Let_def)
  next
    case (File c)
    show ?thesis
    proof (cases "snd (tar_open env ''r:gz'' c)")
      case None
      with Some File assms show ?thesis
        by (intro that [of c]) (auto simp: extract_tar_gz_def tar_extractall_def prog_defs Let_def)
    next
      case (Some e)
      with \<open>files w a = Some n\<close> File assms show ?thesis
        by (simp add: extract_tar_gz_def tar_extractall_def prog_defs Let_def)
    qed
  qed
qed

text \<open>Removing the tree \<open>g\<close> and unpacking an archive into \<open>b\<close>, which is not below \<open>g\<close>.\<close>

lemma rmtree_then_extract:
  fixes g b :: path
  assumes "files w g = Some Dir" and "files w b = Some Dir" and "cwd w = b" and "\<not> prefix g b"
    and "pseq (pbind (path_exists g) (\<lambda>ex. if ex then rmtree g else ret ()))
           (pbind getcwd (\<lambda>current. pseq (extract_tar_gz env archive current) (ret g))) w
         = (Return r, w')"
  shows "r = g"
    and "\<exists>log1 log2. new_events w w' = [Rmtree g, log1, Extractall archive b, log2]"
    and "\<exists>c. files w archive = Some (File c)
           \<and> (\<forall>q. prefix g q \<longrightarrow>
                 files w' q = unpack b (fst (tar_open env ''r:gz'' c)) Map.empty q)"
proof -
  define w1 where "w1 = (emit (Rmtree g) w)\<lparr>files := (\<lambda>q. if prefix g q then None else files w q)\<rparr>"
  have s1: "pbind (path_exists g) (\<lambda>ex. if ex then rmtree g else ret ()) w = (Return (), w1)"
    using assms(1) by (simp add: path_exists_def pbind_def rmtree_def Let_def w1_def)
  have s2: "getcwd w1 = (Return b, w1)"
    using assms(2,3,4) by (simp add: getcwd_def w1_def)
  have run: "pseq (extract_tar_gz env archive b) (ret g) w1 = (Return r, w')"
    using assms(5) s1 s2 by (simp add: pseq_def pbind_def)
  have tr: "trace w1 = trace w @ [Rmtree g]"
    by (simp add: w1_def)
  have *: "unpack b ms (files w1) q = unpack b ms Map.empty q" if "prefix g q" for ms q
    using that by (intro unpack_cong) (simp add: w1_def)
  from pseq_ret_Return [OF run]
  have res1: "r = g" and ex: "extract_tar_gz env archive b w1 = (Return (), w')"
    by simp_all
  from ex obtain c where c: "files w1 archive = Some (File c)"
    and w2: "w' = (emit (Log Success (''Extracted '' @ name_of archive))
             (emit (Extractall archive b)
                (emit (Log Info (''Extracting '' @ name_of archive @ '' to '' @ str_path b)) w1)))
            \<lparr>files := unpack b (fst (tar_open env ''r:gz'' c)) (files w1)\<rparr>"
    by (rule extract_tar_gz_Return)
  from c have cw: "files w archive = Some (File c)"
    by (simp add: w1_def split: if_splits)
  note res = res1 w2
  show "r = g" by (rule res(1))
  show "\<exists>log1 log2. new_events w w' = [Rmtree g, log1, Extractall archive b, log2]"
    by (simp add: res(2) tr new_events_def)
  show "\<exists>c. files w archive = Some (File c)
           \<and> (\<forall>q. prefix g q \<longrightarrow>
                 files w' q = unpack b (fst (tar_open env ''r:gz'' c)) Map.empty q)"
    using cw by (auto simp: res(2) *)
qed

text \<open>
  C8. When \<^verbatim>\<open>main\<close> reaches the extraction of the release and a directory is in the way at
  \<^verbatim>\<open>ghostty-<version>\<close>, that tree is removed first and the archive is unpacked next. If
  the step returns, every path at or below \<^verbatim>\<open>ghostty-<version>\<close> holds what unpacking the
  archive into an empty file system puts there, and nothing else.
\<close>

theorem extract_release_clean:
  assumes "extract_release env release archive w = (Return ghostty_dir, w')"
    and "files w (cwd w @ [''ghostty-'' @ release]) = Some Dir"
  shows "ghostty_dir = cwd w @ [''ghostty-'' @ release]
       \<and> (\<exists>log1 log2. new_events w w'
             = [Rmtree ghostty_dir, log1, Extractall archive (cwd w), log2])
       \<and> (\<exists>c. files w archive = Some (File c)
             \<and> (\<forall>q. prefix ghostty_dir q \<longrightarrow>
                   files w' q = unpack (cwd w) (fst (tar_open env ''r:gz'' c)) Map.empty q))"
proof -
  define g where "g = cwd w @ [''ghostty-'' @ release]"
  have d: "files w (cwd w) = Some Dir"
    using assms(1) by (auto simp: extract_release_def getcwd_def pbind_def split: if_splits)
  have np: "\<not> prefix g (cwd w)"
    by (simp add: g_def)
  have run: "pseq (pbind (path_exists g) (\<lambda>ex. if ex then rmtree g else ret ()))
           (pbind getcwd (\<lambda>current. pseq (extract_tar_gz env archive current) (ret g))) w
         = (Return ghostty_dir, w')"
    using assms(1) d unfolding g_def
    by (simp add: extract_release_def getcwd_def pbind_def Let_def cong del: if_weak_cong)
  have gd: "files w g = Some Dir"
    using assms(2) by (simp add: g_def)
  note r = rmtree_then_extract [OF gd d refl np run]
  show ?thesis
    using r unfolding g_def [symmetric] by blast
qed

theorem extract_release_clean_witness:
  "files w_stale (cwd w_stale @ [''ghostty-'' @ ''1'']) = Some Dir
   \<and> fst (extract_release env_tar ''1'' [''w'', ''ghostty-1.tar.gz''] w_stale)
       = Return [''w'', ''ghostty-1'']
   \<and> files (snd (extract_release env_tar ''1'' [''w'', ''ghostty-1.tar.gz''] w_stale))
        [''w'', ''ghostty-1'', ''old.txt''] = None
   \<and> files (snd (extract_release env_tar ''1'' [''w'', ''ghostty-1.tar.gz''] w_stale))
        [''w'', ''ghostty-1'', ''build.zig''] = Some (File ''new'')"
proof -
  let ?r = "extract_release env_tar ''1'' [''w'', ''ghostty-1.tar.gz''] w_stale"
  have f: "fst ?r = Return [''w'', ''ghostty-1'']"
    by (simp add: extract_release_def extract_tar_gz_def prog_defs lib_defs env_tar_def env0_def
        w_stale_def w0_def Let_def)
  then have e: "?r = (Return [''w'', ''ghostty-1''], snd ?r)"
    by (simp add: prod_eq_iff)
  have d: "files w_stale (cwd w_stale @ [''ghostty-'' @ ''1'']) = Some Dir"
    by (simp add: w_stale_def w0_def)
  have a: "files w_stale [''w'', ''ghostty-1.tar.gz''] = Some (File ''tgz'')"
    "cwd w_stale = [''w'']"
    by (simp_all add: w_stale_def w0_def)
  from extract_release_clean [OF e d] a
  have "\<forall>q. prefix [''w'', ''ghostty-1''] q \<longrightarrow>
          files (snd ?r) q = unpack [''w''] (fst (tar_open env_tar ''r:gz'' ''tgz'')) Map.empty q"
    by simp
  then have "files (snd ?r) [''w'', ''ghostty-1'', ''old.txt'']
        = unpack [''w''] (fst (tar_open env_tar ''r:gz'' ''tgz'')) Map.empty
            [''w'', ''ghostty-1'', ''old.txt'']"
    and "files (snd ?r) [''w'', ''ghostty-1'', ''build.zig'']
        = unpack [''w''] (fst (tar_open env_tar ''r:gz'' ''tgz'')) Map.empty
            [''w'', ''ghostty-1'', ''build.zig'']"
    by simp_all
  then show ?thesis
    using f d by (simp add: unpack_def env_tar_def env0_def)
qed

subsection \<open>The container build cleans up\<close>

lemma keeps_pbind_result:
  assumes "keeps I m" and "\<And>x w. fst (m w) = Return x \<Longrightarrow> P x" and "\<And>x. P x \<Longrightarrow> keeps I (f x)"
  shows "keeps I (pbind m f)"
proof (rule keepsI)
  fix w assume "I w"
  obtain r w1 where mw: "m w = (r, w1)" by (cases "m w")
  with keepsD [OF assms(1) \<open>I w\<close>] have "I w1" by simp
  show "I (snd (pbind m f w))"
  proof (cases r)
    case (Return x)
    with mw assms(2) [of w x] have "P x" by simp
    from keepsD [OF assms(3) [OF this] \<open>I w1\<close>] show ?thesis
      using mw Return by (simp add: pbind_def)
  next
    case (Raise e)
    then show ?thesis using mw \<open>I w1\<close> by (simp add: pbind_def)
  next
    case (Exit n)
    then show ?thesis using mw \<open>I w1\<close> by (simp add: pbind_def)
  qed
qed

lemma extract_artifacts_result:
  "fst (extract_artifacts_from_container env n v t w) = Return x \<Longrightarrow>
     x = (t @ [''ghostty''], t @ [''dist''])"
  by (auto simp: extract_artifacts_from_container_def subprocess_run_def prog_defs Let_def
      split: proc_result.splits if_splits)

lemma dir_extract_and_install: "keeps (dir_at t c) (extract_and_install env v n t)"
  unfolding extract_and_install_def Let_def
  apply (rule keeps_pbind_result [where P = "\<lambda>x. x = (t @ [''ghostty''], t @ [''dist''])"])
    apply (rule dir_extract_artifacts)
   apply (erule extract_artifacts_result)
  apply (simp only: prod.case)
  apply (intro keeps_intros dir_install_desktop_file dir_shutil_move)
   apply simp_all
  done

lemma dir_remove_container: "keeps (dir_at t c) (remove_container env n)"
  unfolding remove_container_def by (intro keeps_intros)

lemma dir_create_and_extract: "keeps (dir_at t c) (create_and_extract env v n t)"
  unfolding create_and_extract_def
  by (intro keeps_intros dir_extract_and_install dir_remove_container)

text \<open>Whatever happened inside, the outer \<^verbatim>\<open>finally\<close> finds the temporary directory and
  removes it.\<close>

lemma container_install_removes:
  assumes "files w t = Some Dir"
  shows "files (snd (container_install env v n t w)) t = None"
proof -
  obtain r w1 where b: "create_and_extract env v n t w = (r, w1)"
    by (cases "create_and_extract env v n t w")
  have "dir_at t (cwd w) w" using assms by (simp add: dir_at_def)
  from keepsD [OF dir_create_and_extract this, of env v n] b
  have d: "files w1 t = Some Dir" by (simp add: dir_at_def)
  have "remove_temp_dir t w1
      = (Return (), (emit (Rmtree t) w1)\<lparr>files := (\<lambda>q. if prefix t q then None else files w1 q)\<rparr>)"
    using d by (simp add: remove_temp_dir_def path_exists_def pbind_def rmtree_def Let_def)
  then show ?thesis
    using b by (simp add: container_install_def try_finally_def)
qed

subsection \<open>The trace of the container build\<close>

lemma emitsI: "(\<And>w. \<exists>es. trace (snd (m w)) = trace w @ es \<and> list_ex Q es) \<Longrightarrow> emits Q m"
  by (simp add: emits_def)

lemma emitsD: "emits Q m \<Longrightarrow> \<exists>es. trace (snd (m w)) = trace w @ es \<and> list_ex Q es"
  by (simp add: emits_def)

lemma emits_try_finally:
  assumes "only P m" and "emits Q fin"
  shows "emits Q (try_finally m fin)"
proof (rule emitsI)
  fix w
  obtain r w1 where mw: "m w = (r, w1)" by (cases "m w")
  from only_run [OF assms(1) mw] obtain es1 where es1: "trace w1 = trace w @ es1" by blast
  obtain r2 w2 where fw: "fin w1 = (r2, w2)" by (cases "fin w1")
  from emitsD [OF assms(2), of w1] fw obtain es2
    where es2: "trace w2 = trace w1 @ es2" "list_ex Q es2" by auto
  have "trace (snd (try_finally m fin w)) = trace w @ (es1 @ es2)"
    using mw fw es1 es2 by (cases r2) (auto simp: try_finally_def)
  moreover have "list_ex Q (es1 @ es2)" using es2 by simp
  ultimately show "\<exists>es. trace (snd (try_finally m fin w)) = trace w @ es \<and> list_ex Q es"
    by blast
qed

lemma emits_then_only:
  assumes "emits Q m" and "only P fin"
  shows "emits Q (try_finally m fin)"
proof (rule emitsI)
  fix w
  obtain r w1 where mw: "m w = (r, w1)" by (cases "m w")
  from emitsD [OF assms(1), of w] mw obtain es1
    where es1: "trace w1 = trace w @ es1" "list_ex Q es1" by auto
  obtain r2 w2 where fw: "fin w1 = (r2, w2)" by (cases "fin w1")
  from only_run [OF assms(2) fw] obtain es2 where es2: "trace w2 = trace w1 @ es2" by blast
  have "trace (snd (try_finally m fin w)) = trace w @ (es1 @ es2)"
    using mw fw es1 es2 by (cases r2) (auto simp: try_finally_def)
  moreover have "list_ex Q (es1 @ es2)" using es1 by simp
  ultimately show "\<exists>es. trace (snd (try_finally m fin w)) = trace w @ es \<and> list_ex Q es"
    by blast
qed

lemma emits_remove_container: "emits (is_container_removal n) (remove_container env n)"
  by (rule emitsI)
    (auto simp: remove_container_def subprocess_run_def prog_defs Let_def
      is_container_removal_def split: proc_result.splits)

lemma nm_install_desktop_file: "only (\<lambda>e. \<not> is_mkdtemp e) (install_desktop_file env g)"
  unfolding install_desktop_file_def install_app_desktop_file_def
    install_dolphin_desktop_file_def Let_def
  by (intro only_intros) (simp_all add: is_mkdtemp_def)

lemma nm_verify_build: "only (\<lambda>e. \<not> is_mkdtemp e) (verify_build env)"
  unfolding verify_build_def Let_def
  by (intro only_intros) (simp_all add: is_mkdtemp_def)

lemma nm_extract_artifacts:
  "only (\<lambda>e. \<not> is_mkdtemp e) (extract_artifacts_from_container env n v t)"
  unfolding extract_artifacts_from_container_def Let_def
  by (intro only_intros) (simp_all add: is_mkdtemp_def)

lemma nm_extract_and_install: "only (\<lambda>e. \<not> is_mkdtemp e) (extract_and_install env v n t)"
  unfolding extract_and_install_def Let_def
  by (intro only_intros nm_extract_artifacts nm_install_desktop_file)
    (simp_all add: is_mkdtemp_def)

lemma nm_remove_container: "only (\<lambda>e. \<not> is_mkdtemp e) (remove_container env n)"
  unfolding remove_container_def
  by (intro only_intros) (simp_all add: is_mkdtemp_def)

lemma nm_remove_temp_dir: "only (\<lambda>e. \<not> is_mkdtemp e) (remove_temp_dir t)"
  unfolding remove_temp_dir_def
  by (intro only_intros) (simp_all add: is_mkdtemp_def)

lemma nm_create_and_extract: "only (\<lambda>e. \<not> is_mkdtemp e) (create_and_extract env v n t)"
  unfolding create_and_extract_def
  by (intro only_intros nm_extract_and_install nm_remove_container)
    (simp_all add: is_mkdtemp_def)

lemma nm_container_install: "only (\<lambda>e. \<not> is_mkdtemp e) (container_install env v n t)"
  unfolding container_install_def
  by (intro only_intros nm_create_and_extract nm_remove_temp_dir)

lemma nm_verify_container_build: "only (\<lambda>e. \<not> is_mkdtemp e) (verify_container_build env)"
  unfolding verify_container_build_def
  by (intro only_intros nm_verify_build) (simp_all add: is_mkdtemp_def)

lemma nm_check_podman: "only (\<lambda>e. \<not> is_mkdtemp e) (check_podman env)"
  unfolding check_podman_def
  by (intro only_intros) (simp_all add: is_mkdtemp_def)

lemma nm_build_image: "only (\<lambda>e. \<not> is_mkdtemp e) (build_image env v z c)"
  unfolding build_image_def Let_def
  by (intro only_intros nm_check_podman) (simp_all add: is_mkdtemp_def)

lemma ext_extract_and_install: "only (\<lambda>_. True) (extract_and_install env v n t)"
  by (rule only_weaken [OF nm_extract_and_install]) simp

lemma ext_remove_temp_dir: "only (\<lambda>_. True) (remove_temp_dir t)"
  by (rule only_weaken [OF nm_remove_temp_dir]) simp

lemma verify_container_build_files: "files (snd (verify_container_build env w)) = files w"
  by (simp add: verify_container_build_def verify_build_def prog_defs Let_def)

text \<open>Once \<^verbatim>\<open>podman create\<close> has returned 0, the removal of the container is run, whatever
  happens in between.\<close>

lemma container_install_removes_container:
  assumes "run env (create_argv v n) = Completed 0 out err"
  shows "\<exists>es. trace (snd (container_install env v n t w)) = trace w @ es
              \<and> list_ex (is_container_removal n) es"
proof -
  define w2 where "w2 = (emit (Run (create_argv v n) (cwd w))
       (emit (Log Info ''Creating temporary container for artifact extraction...'') w))
       \<lparr>files := fold put (run_writes env (create_argv v n)) (files w)\<rparr>"
  define inner where "inner = try_finally (extract_and_install env v n t) (remove_container env n)"
  have body: "create_and_extract env v n t w = inner w2"
    using assms
    by (simp add: create_and_extract_def subprocess_run_def pseq_def pbind_def log_info_def
        Let_def w2_def inner_def)
  have "emits (is_container_removal n) inner"
    unfolding inner_def by (rule emits_try_finally [OF ext_extract_and_install emits_remove_container])
  from emitsD [OF this, of w2] obtain es
    where es: "trace (snd (inner w2)) = trace w2 @ es" "list_ex (is_container_removal n) es"
    by blast
  obtain r3 w3 where i: "inner w2 = (r3, w3)" by (cases "inner w2")
  obtain r4 w4 where f: "remove_temp_dir t w3 = (r4, w4)" by (cases "remove_temp_dir t w3")
  from only_run [OF ext_remove_temp_dir f] obtain es4 where es4: "trace w4 = trace w3 @ es4"
    by blast
  have "snd (container_install env v n t w) = w4"
    using body i f by (cases r4) (simp_all add: container_install_def try_finally_def)
  moreover have "trace w4 = trace w @ ([Log Info ''Creating temporary container for artifact extraction...'',
      Run (create_argv v n) (cwd w)] @ es @ es4)"
    using es i es4 by (simp add: w2_def)
  moreover have "list_ex (is_container_removal n)
      ([Log Info ''Creating temporary container for artifact extraction...'',
        Run (create_argv v n) (cwd w)] @ es @ es4)"
    using es(2) by simp
  ultimately show ?thesis by metis
qed

text \<open>
  C5. In every run of \<^verbatim>\<open>build_ghostty_container\<close> that creates the temporary directory,
  however the run ends (normally, by \<^verbatim>\<open>sys.exit\<close>, or by an exception raised while the
  artifacts are copied out or installed), the temporary directory is gone at the end; and
  if \<^verbatim>\<open>podman create\<close> returned 0, so that the container exists, \<^verbatim>\<open>podman rm\<close> has been run
  on it.
\<close>

theorem container_build_cleans_up:
  assumes "Mkdtemp t \<in> set (new_events w (snd (build_ghostty_container env v zv nc w)))"
  shows "files (snd (build_ghostty_container env v zv nc w)) t = None
       \<and> (\<forall>out err.
             run env (create_argv v (''ghostty-extract-'' @ random_choices env)) = Completed 0 out err
             \<longrightarrow> list_ex (is_container_removal (''ghostty-extract-'' @ random_choices env))
                   (new_events w (snd (build_ghostty_container env v zv nc w))))"
proof -
  define n where "n = ''ghostty-extract-'' @ random_choices env"
  define rest where "rest = pbind (make_temp_dir env) (\<lambda>temp_dir.
     pseq (container_install env v n temp_dir) (verify_container_build env))"
  have bgc: "build_ghostty_container env v zv nc = pseq (build_image env v zv nc) rest"
    by (simp add: build_ghostty_container_def Let_def rest_def n_def)
  obtain r0 w0 where img: "build_image env v zv nc w = (r0, w0)"
    by (cases "build_image env v zv nc w")
  from only_run [OF nm_build_image img] obtain es0
    where es0: "trace w0 = trace w @ es0" "list_all (\<lambda>e. \<not> is_mkdtemp e) es0" by blast
  have no0: "Mkdtemp t \<notin> set es0"
    using es0(2) by (auto simp: list_all_iff is_mkdtemp_def)
  have r0: "r0 = Return ()"
  proof (rule ccontr)
    assume "r0 \<noteq> Return ()"
    then have "build_ghostty_container env v zv nc w = (r0, w0)"
      using img by (cases r0) (simp_all add: bgc pseq_def pbind_def)
    with assms es0 no0 show False by (simp add: new_events_def)
  qed
  then have run1: "build_ghostty_container env v zv nc w = rest w0"
    using img by (simp add: bgc pseq_def pbind_def)
  have stop: False if "snd (rest w0) = w0"
    using assms no0 es0 that by (simp add: run1 new_events_def)
  obtain t' where mk: "mkdtemp env = Inr t'" and fresh: "files w0 t' = None"
    using stop
    by (cases "mkdtemp env"; cases "files w0 (projr (mkdtemp env))")
      (auto simp: rest_def make_temp_dir_def pbind_def)
  define w1 where "w1 = (emit (Mkdtemp t') w0)\<lparr>files := (files w0)(t' \<mapsto> Dir)\<rparr>"
  have run2: "rest w0 = pseq (container_install env v n t') (verify_container_build env) w1"
    using mk fresh by (simp add: rest_def make_temp_dir_def pbind_def w1_def)
  obtain r2 w2 where ci: "container_install env v n t' w1 = (r2, w2)"
    by (cases "container_install env v n t' w1")
  obtain r3 w3 where fin: "pseq (container_install env v n t') (verify_container_build env) w1
      = (r3, w3)"
    by (cases "pseq (container_install env v n t') (verify_container_build env) w1")
  from only_run [OF nm_container_install ci] obtain es2
    where es2: "trace w2 = trace w1 @ es2" "list_all (\<lambda>e. \<not> is_mkdtemp e) es2" by blast
  have w3: "files w3 = files w2 \<and> (\<exists>es3. trace w3 = trace w2 @ es3
      \<and> list_all (\<lambda>e. \<not> is_mkdtemp e) es3)"
  proof (cases r2)
    case (Return x)
    then have v: "verify_container_build env w2 = (r3, w3)"
      using ci fin by (simp add: pseq_def pbind_def)
    from only_run [OF nm_verify_container_build v] verify_container_build_files [of env w2] v
    show ?thesis by auto
  next
    case (Raise e)
    then show ?thesis using ci fin by (simp add: pseq_def pbind_def)
  next
    case (Exit k)
    then show ?thesis using ci fin by (simp add: pseq_def pbind_def)
  qed
  then obtain es3 where es3: "trace w3 = trace w2 @ es3" "list_all (\<lambda>e. \<not> is_mkdtemp e) es3"
    by blast
  have final: "snd (build_ghostty_container env v zv nc w) = w3"
    by (simp add: run1 run2 fin)
  have "trace w3 = trace w @ es0 @ Mkdtemp t' # es2 @ es3"
    using es3 es2 es0 by (simp add: w1_def)
  then have ne: "new_events w (snd (build_ghostty_container env v zv nc w))
      = es0 @ Mkdtemp t' # es2 @ es3"
    by (simp add: final new_events_def)
  have "Mkdtemp t \<notin> set es2" "Mkdtemp t \<notin> set es3"
    using es2(2) es3(2) by (auto simp: list_all_iff is_mkdtemp_def)
  with assms no0 have tt: "t' = t" by (simp add: ne)
  have d1: "files w1 t' = Some Dir" by (simp add: w1_def)
  have gone: "files w2 t' = None"
    using container_install_removes [OF d1, of env v n] ci by simp
  show ?thesis
    unfolding n_def [symmetric]
  proof (intro conjI allI impI)
    show "files (snd (build_ghostty_container env v zv nc w)) t = None"
      using gone w3 tt by (simp add: final)
    fix out err
    assume "run env (create_argv v n) = Completed 0 out err"
    from container_install_removes_container [OF this, of t' w1] ci obtain es
      where "trace w2 = trace w1 @ es" "list_ex (is_container_removal n) es" by auto
    with es2(1) have "list_ex (is_container_removal n) es2" by simp
    then show "list_ex (is_container_removal n)
        (new_events w (snd (build_ghostty_container env v zv nc w)))"
      by (simp add: ne)
  qed
qed

theorem container_build_cleans_up_witness:
  "Mkdtemp [''tmp'', ''d'']
     \<in> set (new_events w_recipe (snd (build_ghostty_container env_cp_fails ''1'' ''2'' False w_recipe)))
   \<and> fst (build_ghostty_container env_cp_fails ''1'' ''2'' False w_recipe)
       = Raise (Exn ''RuntimeError'' ''Binary extraction failed'')
   \<and> run env_cp_fails (create_argv ''1'' (''ghostty-extract-'' @ random_choices env_cp_fails))
       = Completed 0 [] []
   \<and> files (snd (build_ghostty_container env_cp_fails ''1'' ''2'' False w_recipe)) [''tmp'', ''d'']
       = None
   \<and> list_ex (is_container_removal ''ghostty-extract-abcdefgh'')
        (new_events w_recipe (snd (build_ghostty_container env_cp_fails ''1'' ''2'' False w_recipe)))"
proof -
  let ?r = "build_ghostty_container env_cp_fails ''1'' ''2'' False w_recipe"
  have e: "fst ?r = Raise (Exn ''RuntimeError'' ''Binary extraction failed'')
      \<and> Mkdtemp [''tmp'', ''d''] \<in> set (new_events w_recipe (snd ?r))"
    by (simp add: script_defs prog_defs lib_defs new_events_def env_cp_fails_def env0_def
        w_recipe_def w0_def Let_def)
  have c: "run env_cp_fails (create_argv ''1'' (''ghostty-extract-'' @ random_choices env_cp_fails))
       = Completed 0 [] []"
    by (simp add: create_argv_def env_cp_fails_def env0_def)
  have n: "''ghostty-extract-'' @ random_choices env_cp_fails = ''ghostty-extract-abcdefgh''"
    by (simp add: env_cp_fails_def env0_def)
  from e have m: "Mkdtemp [''tmp'', ''d''] \<in> set (new_events w_recipe (snd ?r))" by simp
  from container_build_cleans_up [OF m] c
  have "files (snd ?r) [''tmp'', ''d''] = None
      \<and> list_ex (is_container_removal (''ghostty-extract-'' @ random_choices env_cp_fails))
           (new_events w_recipe (snd ?r))"
    by blast
  then show ?thesis
    using e c unfolding n by blast
qed

end
